theory Spec2Isabelle
  imports Complex_Main "HOL-Library.Char_ord" "HOL-Library.List_Lexorder" "HOL-Library.Word"
begin

section \<open>Values, exceptions and HTTP responses\<close>

text \<open>
  The dashboard's data layer (\<^verbatim>\<open>Multi-data-dashboard.py\<close>) issues HTTP GET requests,
  reshapes the payloads into tables and computes a few summary statistics.

  Python floats are modelled by the reals, without rounding; the outcome of a float
  operation that is not a finite number (a division by zero, the change of a value
  that has no predecessor) is \<open>None\<close>. Integers in a table are 64-bit machine
  integers, whose arithmetic wraps. Instants are integer counts of nanoseconds
  since the Unix epoch, which is how the table library stores a timestamp, in 64
  bits. Layout, colours and the formatting of numbers as text are not part of the
  model.
\<close>

datatype exn =
  RequestException | JSONDecodeError | KeyError | TypeError | IndexError | ValueError
| OutOfBoundsDatetime

text \<open>
  What \<^verbatim>\<open>requests.get\<close> gives back: it raises (a timeout, a connection error), or it
  returns a response with a status code and a body. The body is either data of the
  shape the endpoint documents (\<open>Inr\<close>), or a body on which the code that decodes and
  tabulates it raises (\<open>Inl\<close>, the exception).
\<close>

datatype 'a http_result = Raised exn | Response int "exn + 'a"

text \<open>A table: its column names and its rows, in order.\<close>

record 'r frame =
  columns :: "string list"
  rows :: "'r list"

text \<open>\<^verbatim>\<open>pd.DataFrame()\<close>, and \<^verbatim>\<open>df.empty\<close>: true when either axis has length 0.\<close>

definition DataFrame :: "'r frame" where
  "DataFrame = \<lparr>columns = [], rows = []\<rparr>"

definition df_empty :: "'r frame \<Rightarrow> bool" where
  "df_empty df = (columns df = [] \<or> rows df = [])"

text \<open>The distinct elements of a list, in order of first appearance.\<close>

definition unique :: "'a list \<Rightarrow> 'a list" where
  "unique xs = rev (remdups (rev xs))"

text \<open>A loop whose body may raise: the first exception ends it.\<close>

fun mapE :: "('a \<Rightarrow> exn + 'b) \<Rightarrow> 'a list \<Rightarrow> exn + 'b list" where
  "mapE f [] = Inr []"
| "mapE f (x # xs) =
     (case f x of
        Inl e \<Rightarrow> Inl e
      | Inr y \<Rightarrow> (case mapE f xs of Inl e \<Rightarrow> Inl e | Inr ys \<Rightarrow> Inr (y # ys)))"

subsection \<open>Numbers in a table\<close>

text \<open>
  A JSON number decodes to a Python \<^verbatim>\<open>int\<close> or \<^verbatim>\<open>float\<close>, and a numeric column of a
  table holds either 64-bit integers (\<^verbatim>\<open>int64\<close>) or floats (\<^verbatim>\<open>float64\<close>). An
  integer is kept as a 64-bit word, read as a signed number; integers beyond 64
  bits are not in the model.
\<close>

datatype number = PyInt "64 word" | PyFloat real

definition value_of :: "number \<Rightarrow> real" where
  "value_of n = (case n of PyInt w \<Rightarrow> real_of_int (sint w) | PyFloat x \<Rightarrow> x)"

definition is_int :: "number \<Rightarrow> bool" where
  "is_int n = (case n of PyInt w \<Rightarrow> True | PyFloat x \<Rightarrow> False)"

definition to_float :: "number \<Rightarrow> number" where
  "to_float n = PyFloat (value_of n)"

text \<open>\<^verbatim>\<open>a - b\<close> on two scalars of a column: in 64-bit integers, where it wraps, when
  both are integers, and in floats otherwise.\<close>

definition np_subtract :: "number \<Rightarrow> number \<Rightarrow> number" where
  "np_subtract a b =
     (case (a, b) of
        (PyInt x, PyInt y) \<Rightarrow> PyInt (x - y)
      | _ \<Rightarrow> PyFloat (value_of a - value_of b))"

text \<open>A row of a price table: crypto (\<^verbatim>\<open>timestamp, price, coin\<close>) and stocks
  (\<^verbatim>\<open>date, price, symbol\<close>) share the shape.\<close>

record series_row =
  timestamp :: int
  price :: number
  series_label :: string

text \<open>
  The type of the price column: \<^verbatim>\<open>int64\<close> when every price is an integer, and
  \<^verbatim>\<open>float64\<close> otherwise, the integers then being converted. The table constructor
  infers it so from a list of records, and \<^verbatim>\<open>pd.concat\<close> gives the column the
  common type of the frames that have rows.
\<close>

definition astype_common :: "series_row list \<Rightarrow> series_row list" where
  "astype_common rs =
     (if list_all (\<lambda>r. is_int (price r)) rs then rs
      else map (\<lambda>r. r\<lparr>price := to_float (price r)\<rparr>) rs)"

text \<open>\<^verbatim>\<open>pd.concat(data)\<close>: the rows of the frames one after the other, the columns in
  order of first appearance; it raises on an empty list of frames.\<close>

definition pd_concat :: "series_row frame list \<Rightarrow> exn + series_row frame" where
  "pd_concat data =
     (if data = [] then Inl ValueError
      else Inr \<lparr>columns = unique (concat (map columns data)),
               rows = astype_common (concat (map rows data))\<rparr>)"

section \<open>Crypto prices: \<^verbatim>\<open>fetch_crypto_data\<close>\<close>

text \<open>\<^verbatim>\<open>str.capitalize\<close> on ASCII text: the first character in upper case, the rest
  in lower case.\<close>

definition to_upper :: "char \<Rightarrow> char" where
  "to_upper c =
     (let n = (of_char c :: nat) in if 97 \<le> n \<and> n \<le> 122 then char_of (n - 32) else c)"

definition to_lower :: "char \<Rightarrow> char" where
  "to_lower c =
     (let n = (of_char c :: nat) in if 65 \<le> n \<and> n \<le> 90 then char_of (n + 32) else c)"

fun capitalize :: "string \<Rightarrow> string" where
  "capitalize [] = []"
| "capitalize (c # cs) = to_upper c # map to_lower cs"

text \<open>\<^verbatim>\<open>pd.to_datetime(..., unit='ms')\<close> on one value of an \<^verbatim>\<open>int64\<close> column: epoch
  milliseconds to the instant, in nanoseconds; it raises when the instant does not
  fit the 64 bits of a timestamp. The least 64-bit integer is no instant (NaT)
  before and after the conversion.\<close>

definition NaT :: int where
  "NaT = - (2 ^ 63)"

definition to_datetime_ms :: "64 word \<Rightarrow> exn + int" where
  "to_datetime_ms ms =
     (if sint ms = NaT then Inr NaT
      else
        (let ns = sint ms * 1000000
         in if - (2 ^ 63) < ns \<and> ns < 2 ^ 63 then Inr ns else Inl OutOfBoundsDatetime))"

text \<open>
  \<^verbatim>\<open>
  def fetch_crypto_data(coins=['bitcoin', 'ethereum', 'cardano'], days=7):
      data = []
      for coin in coins:
          try:
              response = requests.get(url, params=params, timeout=10)
              if response.status_code == 200:
                  prices = response.json()['prices']
                  df = pd.DataFrame(prices, columns=['timestamp', 'price'])
                  df['timestamp'] = pd.to_datetime(df['timestamp'], unit='ms')
                  df['coin'] = coin.capitalize()
                  data.append(df)
          except Exception as e:
              print(f"Error fetching {coin}: {e}")
      return pd.concat(data) if data else pd.DataFrame()
  \<close>
  The market-chart service is a function from the coin and the day-count to the
  outcome of the request; a well-formed payload is a list of
  \<open>(epoch_ms, price)\<close> pairs, the instant a 64-bit integer and the price a number.
  \<open>coin_frame\<close> is the three statements that build the frame of a coin: the
  conversion of the instants raises on the first one that is out of range.
  \<open>coin_try\<close> is the body of the \<^verbatim>\<open>try\<close> block: it raises, or appends a frame
  (\<open>Some\<close>), or appends nothing.
\<close>

type_synonym market_chart = "string \<Rightarrow> nat \<Rightarrow> (64 word \<times> number) list http_result"

definition coin_frame ::
  "string \<Rightarrow> (64 word \<times> number) list \<Rightarrow> exn + series_row frame" where
  "coin_frame coin prices =
     (case mapE (\<lambda>(ms, p). to_datetime_ms ms) prices of
        Inl e \<Rightarrow> Inl e
      | Inr instants \<Rightarrow>
          Inr \<lparr>columns = [''timestamp'', ''price'', ''coin''],
               rows = astype_common
                        (map (\<lambda>(t, (ms, p)). \<lparr>timestamp = t, price = p,
                                                series_label = capitalize coin\<rparr>)
                           (zip instants prices))\<rparr>)"

definition coin_try ::
  "(64 word \<times> number) list http_result \<Rightarrow> string \<Rightarrow> exn + series_row frame option" where
  "coin_try r coin =
     (case r of
        Raised e \<Rightarrow> Inl e
      | Response status body \<Rightarrow>
          if status = 200 then
            (case body of
               Inl e \<Rightarrow> Inl e
             | Inr prices \<Rightarrow>
                 (case coin_frame coin prices of Inl e \<Rightarrow> Inl e | Inr df \<Rightarrow> Inr (Some df)))
          else Inr None)"

fun fetch_loop ::
  "market_chart \<Rightarrow> nat \<Rightarrow> string list \<Rightarrow> series_row frame list \<Rightarrow> series_row frame list" where
  "fetch_loop get days [] data = data"
| "fetch_loop get days (coin # coins) data =
     fetch_loop get days coins
       (case coin_try (get coin days) coin of
          Inr (Some df) \<Rightarrow> data @ [df]
        | Inr None \<Rightarrow> data
        | Inl e \<Rightarrow> data)"

definition fetch_crypto_data :: "market_chart \<Rightarrow> string list \<Rightarrow> nat \<Rightarrow> exn + series_row frame" where
  "fetch_crypto_data get coins days =
     (let data = fetch_loop get days coins []
      in if data \<noteq> [] then pd_concat data else Inr DataFrame)"

definition default_coins :: "string list" where
  "default_coins = [''bitcoin'', ''ethereum'', ''cardano'']"

section \<open>Geocoding: \<^verbatim>\<open>get_coordinates\<close>\<close>

text \<open>
  \<^verbatim>\<open>
  def get_coordinates(location_name):
      try:
          response = requests.get(url, params=params, timeout=10)
          if response.status_code == 200:
              data = response.json()
              if 'results' in data and len(data['results']) > 0:
                  result = data['results'][0]
                  return result['latitude'], result['longitude'], result['name']
      except Exception as e:
          print(f"Error geocoding location: {e}")
      return 40.7128, -74.0060, "New York"
  \<close>
  A well-formed body may or may not have the key \<^verbatim>\<open>results\<close>; when it has, the
  value is a list of places.
\<close>

record place =
  latitude :: real
  longitude :: real
  name :: string

type_synonym geocoding = "string \<Rightarrow> place list option http_result"

type_synonym coordinates = "real \<times> real \<times> string"

definition default_coordinates :: coordinates where
  "default_coordinates = (40.7128, - 74.0060, ''New York'')"

text \<open>The body of the \<^verbatim>\<open>try\<close> block: it raises, returns a triple (\<open>Some\<close>), or falls
  through to the statement after the handler.\<close>

definition geocode_try :: "place list option http_result \<Rightarrow> exn + coordinates option" where
  "geocode_try r =
     (case r of
        Raised e \<Rightarrow> Inl e
      | Response status body \<Rightarrow>
          if status = 200 then
            (case body of
               Inl e \<Rightarrow> Inl e
             | Inr data \<Rightarrow>
                 (case data of
                    None \<Rightarrow> Inr None
                  | Some results \<Rightarrow>
                      if 0 < length results then
                        (case results of
                           [] \<Rightarrow> Inl IndexError
                         | result # _ \<Rightarrow>
                             Inr (Some (latitude result, longitude result, name result)))
                      else Inr None))
          else Inr None)"

definition get_coordinates :: "geocoding \<Rightarrow> string \<Rightarrow> coordinates" where
  "get_coordinates geocode location_name =
     (case geocode_try (geocode location_name) of
        Inr (Some found) \<Rightarrow> found
      | Inr None \<Rightarrow> default_coordinates
      | Inl e \<Rightarrow> default_coordinates)"

section \<open>Weather forecast: \<^verbatim>\<open>fetch_weather_data\<close>\<close>

text \<open>
  \<^verbatim>\<open>
  def fetch_weather_data(location_name="New York", days=7):
      latitude, longitude, resolved_name = get_coordinates(location_name)
      try:
          response = requests.get(WEATHER_API, params=params, timeout=10)
          if response.status_code == 200:
              data = response.json()['hourly']
              df = pd.DataFrame({
                  'time': pd.to_datetime(data['time']),
                  'temperature': data['temperature_2m'],
                  'humidity': data['relative_humidity_2m'],
                  'precipitation': data['precipitation']
              })
              df['location'] = resolved_name
              return df
      except Exception as e:
          print(f"Error fetching weather: {e}")
      return pd.DataFrame()
  \<close>
  A well-formed payload has the four hourly arrays; nothing in its type makes them
  equally long.
\<close>

record hourly =
  hourly_time :: "string list"
  temperature_2m :: "real list"
  relative_humidity_2m :: "real list"
  hourly_precipitation :: "real list"

record weather_row =
  time :: int
  temperature :: real
  humidity :: real
  precipitation :: real
  location :: string

type_synonym forecast = "real \<Rightarrow> real \<Rightarrow> nat \<Rightarrow> hourly http_result"

text \<open>
  \<^verbatim>\<open>pd.to_datetime\<close> on a list of strings does not parse each string on its own.
  It takes the first string that carries a format (the empty string and the
  spellings of ``not a time'' carry none and have their instant whatever the
  format), infers a format from it, and parses every string with that format, so
  that a string in another format raises. Only when no format can be inferred is
  each string parsed on its own. How a format is inferred and how a string is
  parsed with a format are the table library's business and parameters here,
  \<open>Inl\<close> where they raise; a format is its \<^verbatim>\<open>strftime\<close> text.
\<close>

record datetime_parser =
  format_free :: "string \<Rightarrow> int option"
  guess_datetime_format :: "string \<Rightarrow> string option"
  strptime :: "string \<Rightarrow> string \<Rightarrow> exn + int"
  dateutil_parse :: "string \<Rightarrow> exn + int"

definition to_datetime_list :: "datetime_parser \<Rightarrow> string list \<Rightarrow> exn + int list" where
  "to_datetime_list p ss =
     (let parse_one =
            (case find (\<lambda>s. format_free p s = None) ss of
               None \<Rightarrow> dateutil_parse p
             | Some first \<Rightarrow>
                 (case guess_datetime_format p first of
                    Some fmt \<Rightarrow> strptime p fmt
                  | None \<Rightarrow> dateutil_parse p))
      in mapE (\<lambda>s. case format_free p s of Some t \<Rightarrow> Inr t | None \<Rightarrow> parse_one s) ss)"

text \<open>The table constructor on a dict of four arrays: it raises ValueError
  (``All arrays must be of the same length'') unless the lengths agree, and
  otherwise row \<open>i\<close> holds the \<open>i\<close>-th element of each array. The column
  \<^verbatim>\<open>location\<close>, assigned next, holds the resolved name on every row.\<close>

definition DataFrame_of_columns ::
  "int list \<Rightarrow> real list \<Rightarrow> real list \<Rightarrow> real list \<Rightarrow> string \<Rightarrow> exn + weather_row frame" where
  "DataFrame_of_columns ts temps hums precs loc =
     (if length temps = length ts \<and> length hums = length ts \<and> length precs = length ts then
        Inr \<lparr>columns = [''time'', ''temperature'', ''humidity'', ''precipitation'', ''location''],
             rows = map (\<lambda>i. \<lparr>time = ts ! i, temperature = temps ! i, humidity = hums ! i,
                               precipitation = precs ! i, location = loc\<rparr>) [0..<length ts]\<rparr>
      else Inl ValueError)"

definition weather_try ::
  "datetime_parser \<Rightarrow> hourly http_result \<Rightarrow> string \<Rightarrow> exn + weather_row frame option" where
  "weather_try parse r resolved_name =
     (case r of
        Raised e \<Rightarrow> Inl e
      | Response status body \<Rightarrow>
          if status = 200 then
            (case body of
               Inl e \<Rightarrow> Inl e
             | Inr data \<Rightarrow>
                 (case to_datetime_list parse (hourly_time data) of
                    Inl e \<Rightarrow> Inl e
                  | Inr ts \<Rightarrow>
                      (case DataFrame_of_columns ts (temperature_2m data)
                              (relative_humidity_2m data) (hourly_precipitation data)
                              resolved_name of
                         Inl e \<Rightarrow> Inl e
                       | Inr df \<Rightarrow> Inr (Some df))))
          else Inr None)"

definition fetch_weather_data ::
  "geocoding \<Rightarrow> forecast \<Rightarrow> datetime_parser \<Rightarrow> string \<Rightarrow> nat \<Rightarrow> weather_row frame" where
  "fetch_weather_data geocode get parse location_name days =
     (case get_coordinates geocode location_name of
        (lat, lon, resolved_name) \<Rightarrow>
          (case weather_try parse (get lat lon days) resolved_name of
             Inr (Some df) \<Rightarrow> df
           | Inr None \<Rightarrow> DataFrame
           | Inl e \<Rightarrow> DataFrame))"

section \<open>Mock stock prices: \<^verbatim>\<open>generate_mock_stock_data\<close>\<close>

text \<open>
  \<^verbatim>\<open>
  def generate_mock_stock_data(symbols=['AAPL', 'GOOGL', 'MSFT'], days=30):
      data = []
      base_prices = {'AAPL': 180, 'GOOGL': 140, 'MSFT': 380}
      for symbol in symbols:
          dates = pd.date_range(end=datetime.now(), periods=days, freq='D')
          base = base_prices.get(symbol, 100)
          prices = base + np.cumsum(np.random.randn(days) * 5)
          df = pd.DataFrame({'date': dates, 'price': prices, 'symbol': symbol})
          data.append(df)
      return pd.concat(data)
  \<close>
  The function reads two things it is not given: the clock and the global random
  generator. \<open>now k\<close> is the \<open>k\<close>-th reading of the clock and \<open>randn k\<close> the \<open>k\<close>-th
  sample the generator hands out from its current state (what a seed fixes); the
  \<open>j\<close>-th pass of the loop reads the clock once and draws \<open>days\<close> samples. The
  prices are a float array plus a number, so the price column holds floats.
\<close>

definition day_ns :: int where
  "day_ns = 86400 * 1000000000"

text \<open>\<^verbatim>\<open>pd.date_range(end=e, periods=n, freq='D')\<close>.\<close>

definition date_range :: "int \<Rightarrow> nat \<Rightarrow> int list" where
  "date_range e n = map (\<lambda>i. e - (int n - 1 - int i) * day_ns) [0..<n]"

fun cumsum_from :: "real \<Rightarrow> real list \<Rightarrow> real list" where
  "cumsum_from acc [] = []"
| "cumsum_from acc (x # xs) = (acc + x) # cumsum_from (acc + x) xs"

definition cumsum :: "real list \<Rightarrow> real list" where
  "cumsum xs = cumsum_from 0 xs"

definition base_prices :: "(string \<times> real) list" where
  "base_prices = [(''AAPL'', 180), (''GOOGL'', 140), (''MSFT'', 380)]"

definition base_price :: "string \<Rightarrow> real" where
  "base_price symbol = (case map_of base_prices symbol of None \<Rightarrow> 100 | Some b \<Rightarrow> b)"

definition symbol_frame :: "int \<Rightarrow> real list \<Rightarrow> string \<Rightarrow> nat \<Rightarrow> series_row frame" where
  "symbol_frame today steps symbol days =
     (let dates = date_range today days;
          prices = map (\<lambda>c. base_price symbol + c) (cumsum (map (\<lambda>z. z * 5) steps))
      in \<lparr>columns = [''date'', ''price'', ''symbol''],
          rows = map (\<lambda>(d, p). \<lparr>timestamp = d, price = PyFloat p, series_label = symbol\<rparr>)
                   (zip dates prices)\<rparr>)"

fun stock_loop ::
  "(nat \<Rightarrow> int) \<Rightarrow> (nat \<Rightarrow> real) \<Rightarrow> nat \<Rightarrow> string list \<Rightarrow> nat \<Rightarrow> series_row frame list
     \<Rightarrow> series_row frame list" where
  "stock_loop now randn days [] j data = data"
| "stock_loop now randn days (symbol # symbols) j data =
     stock_loop now randn days symbols (Suc j)
       (data @ [symbol_frame (now j) (map randn [j * days..<j * days + days]) symbol days])"

definition generate_mock_stock_data ::
  "(nat \<Rightarrow> int) \<Rightarrow> (nat \<Rightarrow> real) \<Rightarrow> string list \<Rightarrow> nat \<Rightarrow> exn + series_row frame" where
  "generate_mock_stock_data now randn symbols days =
     pd_concat (stock_loop now randn days symbols 0 [])"

definition default_symbols :: "string list" where
  "default_symbols = [''AAPL'', ''GOOGL'', ''MSFT'']"

section \<open>The dashboard callbacks\<close>

text \<open>
  Everything a refresh reads from outside: the three services, the time parser of
  the table library, the random generator and the clock.
\<close>

record world =
  market_chart_api :: market_chart
  geocoding_api :: geocoding
  forecast_api :: forecast
  parse_time :: datetime_parser
  generator :: "nat \<Rightarrow> real"
  clock :: "nat \<Rightarrow> int"

text \<open>
  What a callback returns: the stat cards, the three figures and the time of the
  refresh. A figure is kept by its kind and its data: one trace of \<open>(x, y)\<close> points
  per label, or one bar per label, or an empty figure carrying a message.
\<close>

datatype chart_kind = Line | Area | Bar

datatype figure =
  Chart chart_kind "(string \<times> (int \<times> real) list) list"
| Bars "(string \<times> real option) list"
| Annotation string

datatype subtitle = Place string | NextDays nat

datatype card =
  PriceCard string real "real option"
| InfoCard string "real option" subtitle

record dashboard =
  cards :: "card list"
  main_chart :: figure
  secondary_chart_1 :: figure
  secondary_chart_2 :: figure
  last_update :: int

text \<open>
  \<^verbatim>\<open>
  def create_empty_dashboard(message):
      empty_fig = go.Figure()
      empty_fig.add_annotation(text=message, ...)
      empty_fig = style_figure(empty_fig)
      return [], empty_fig, empty_fig, empty_fig, datetime.now().strftime(...)
  \<close>
\<close>

definition create_empty_dashboard :: "string \<Rightarrow> int \<Rightarrow> dashboard" where
  "create_empty_dashboard message stamp =
     \<lparr>cards = [], main_chart = Annotation message, secondary_chart_1 = Annotation message,
      secondary_chart_2 = Annotation message, last_update = stamp\<rparr>"

subsection \<open>Statistics of a price table\<close>

text \<open>\<^verbatim>\<open>s.iloc[-1]\<close> and \<^verbatim>\<open>s.iloc[0]\<close> raise IndexError on an empty series.\<close>

definition iloc_last :: "'a list \<Rightarrow> exn + 'a" where
  "iloc_last xs = (if xs = [] then Inl IndexError else Inr (last xs))"

definition iloc_first :: "'a list \<Rightarrow> exn + 'a" where
  "iloc_first xs = (case xs of [] \<Rightarrow> Inl IndexError | x # _ \<Rightarrow> Inr x)"

text \<open>Float division: by zero it gives an infinity or NaN, not an exception.\<close>

definition fdiv :: "real \<Rightarrow> real \<Rightarrow> real option" where
  "fdiv a b = (if b = 0 then None else Some (a / b))"

text \<open>\<^verbatim>\<open>s.pct_change()\<close>, which is \<^verbatim>\<open>s / s.shift(1) - 1\<close>: each value divided by its
  predecessor, minus one, in floats whatever the type of the column; the first
  entry has no predecessor and is NaN.\<close>

fun pct_change :: "number list \<Rightarrow> real option list" where
  "pct_change [] = []"
| "pct_change (x # xs) =
     None # map (\<lambda>(prev, cur). map_option (\<lambda>q. q - 1) (fdiv (value_of cur) (value_of prev)))
              (zip (x # xs) xs)"

text \<open>\<^verbatim>\<open>df[df[label] == l]['price']\<close>, the labels in order of first appearance
  (\<^verbatim>\<open>unique()\<close>, and the traces of a coloured chart), and the keys of
  \<^verbatim>\<open>df.groupby(label)\<close>, which are sorted.\<close>

definition series_of :: "series_row frame \<Rightarrow> string \<Rightarrow> series_row list" where
  "series_of df l = filter (\<lambda>r. series_label r = l) (rows df)"

definition labels :: "series_row frame \<Rightarrow> string list" where
  "labels df = unique (map series_label (rows df))"

definition groupby_keys :: "series_row frame \<Rightarrow> string list" where
  "groupby_keys df = sort (labels df)"

text \<open>\<^verbatim>\<open>df[...]['price'].pct_change().iloc[-1] * 100\<close>, the change shown on a card.\<close>

definition price_change :: "number list \<Rightarrow> exn + real option" where
  "price_change xs =
     (case iloc_last (pct_change xs) of
        Inl e \<Rightarrow> Inl e
      | Inr c \<Rightarrow> Inr (map_option (\<lambda>v. v * 100) c))"

text \<open>\<^verbatim>\<open>lambda x: ((x.iloc[-1] - x.iloc[0]) / x.iloc[0] * 100)\<close>, the change shown
  as a bar. The subtraction is between two scalars of the column, so it wraps on
  an integer column; the division is always a float division.\<close>

definition total_change :: "number list \<Rightarrow> exn + real option" where
  "total_change x =
     (case iloc_last x of
        Inl e \<Rightarrow> Inl e
      | Inr l \<Rightarrow>
          (case iloc_first x of
             Inl e \<Rightarrow> Inl e
           | Inr f \<Rightarrow>
               Inr (map_option (\<lambda>v. v * 100) (fdiv (value_of (np_subtract l f)) (value_of f)))))"

text \<open>
  The statistics part of \<^verbatim>\<open>update_crypto_dashboard\<close> and
  \<^verbatim>\<open>update_stocks_dashboard\<close> is the same code up to the names of the columns:
  \<^verbatim>\<open>
  latest_prices = df.groupby('coin')['price'].last()
  for i, (coin, price) in enumerate(latest_prices.items()):
      price_change = df[df['coin'] == coin]['price'].pct_change().iloc[-1] * 100
      cards.append(... coin, price, price_change ...)
  fig_main = px.line(df, x='timestamp', y='price', color='coin', ...)
  ...
  latest_data = df.groupby('coin').last().reset_index()
  latest_data['change'] = df.groupby('coin')['price'].apply(
      lambda x: ((x.iloc[-1] - x.iloc[0]) / x.iloc[0] * 100)).values
  fig_sec2 = px.bar(latest_data, x='coin', y='change', ...)
  \<close>
\<close>

definition price_card :: "series_row frame \<Rightarrow> string \<Rightarrow> exn + card" where
  "price_card df l =
     (let prices = map price (series_of df l)
      in case price_change prices of
           Inl e \<Rightarrow> Inl e
         | Inr c \<Rightarrow> Inr (PriceCard l (value_of (last prices)) c))"

definition change_bar :: "series_row frame \<Rightarrow> string \<Rightarrow> exn + (string \<times> real option)" where
  "change_bar df l =
     (case total_change (map price (series_of df l)) of
        Inl e \<Rightarrow> Inl e
      | Inr c \<Rightarrow> Inr (l, c))"

definition traces :: "series_row frame \<Rightarrow> (string \<times> (int \<times> real) list) list" where
  "traces df =
     map (\<lambda>l. (l, map (\<lambda>r. (timestamp r, value_of (price r))) (series_of df l))) (labels df)"

definition price_dashboard :: "series_row frame \<Rightarrow> int \<Rightarrow> exn + dashboard" where
  "price_dashboard df stamp =
     (case mapE (price_card df) (groupby_keys df) of
        Inl e \<Rightarrow> Inl e
      | Inr cs \<Rightarrow>
          (case mapE (change_bar df) (groupby_keys df) of
             Inl e \<Rightarrow> Inl e
           | Inr bs \<Rightarrow>
               Inr \<lparr>cards = cs, main_chart = Chart Line (traces df),
                    secondary_chart_1 = Chart Area (traces df),
                    secondary_chart_2 = Bars bs, last_update = stamp\<rparr>))"

subsection \<open>The three pipelines and the dispatcher\<close>

text \<open>
  \<^verbatim>\<open>
  def update_crypto_dashboard(days):
      df = fetch_crypto_data(days=days)
      if df.empty:
          return create_empty_dashboard("No crypto data available")
      ...
  \<close>
\<close>

definition update_crypto_dashboard :: "world \<Rightarrow> nat \<Rightarrow> exn + dashboard" where
  "update_crypto_dashboard w days =
     (case fetch_crypto_data (market_chart_api w) default_coins days of
        Inl e \<Rightarrow> Inl e
      | Inr df \<Rightarrow>
          if df_empty df then Inr (create_empty_dashboard ''No crypto data available'' (clock w 0))
          else price_dashboard df (clock w 0))"

text \<open>
  \<^verbatim>\<open>
  def update_stocks_dashboard(days):
      df = generate_mock_stock_data(days=days)
      ...
  \<close>
  There is no emptiness test here. The generator reads the clock once per symbol,
  so the stamp is the next reading. The day-count comes from a slider over 1 to 30.
\<close>

definition update_stocks_dashboard :: "world \<Rightarrow> nat \<Rightarrow> exn + dashboard" where
  "update_stocks_dashboard w days =
     (case generate_mock_stock_data (clock w) (generator w) default_symbols days of
        Inl e \<Rightarrow> Inl e
      | Inr df \<Rightarrow> price_dashboard df (clock w (length default_symbols)))"

text \<open>
  \<^verbatim>\<open>
  def update_weather_dashboard(days, location):
      df = fetch_weather_data(location_name=location, days=days)
      if df.empty:
          return create_empty_dashboard("No weather data available")
      location_name = df['location'].iloc[0] if 'location' in df.columns else location
      avg_temp = df['temperature'].mean()
      avg_humidity = df['humidity'].mean()
      total_precip = df['precipitation'].sum()
      ...
  \<close>
\<close>

text \<open>\<^verbatim>\<open>s.mean()\<close>: NaN on an empty series.\<close>

definition mean :: "real list \<Rightarrow> real option" where
  "mean xs = fdiv (sum_list xs) (real (length xs))"

definition update_weather_dashboard :: "world \<Rightarrow> nat \<Rightarrow> string \<Rightarrow> exn + dashboard" where
  "update_weather_dashboard w days loc =
     (let df = fetch_weather_data (geocoding_api w) (forecast_api w) (parse_time w) loc days
      in if df_empty df then
           Inr (create_empty_dashboard ''No weather data available'' (clock w 0))
         else
           (case (if ''location'' \<in> set (columns df) then iloc_first (map location (rows df))
                  else Inr loc) of
              Inl e \<Rightarrow> Inl e
            | Inr location_name \<Rightarrow>
                Inr \<lparr>cards =
                       [InfoCard ''Avg Temperature'' (mean (map temperature (rows df)))
                          (Place location_name),
                        InfoCard ''Avg Humidity'' (mean (map humidity (rows df)))
                          (NextDays days),
                        InfoCard ''Total Precipitation''
                          (Some (sum_list (map precipitation (rows df)))) (NextDays days)],
                     main_chart =
                       Chart Line [([], map (\<lambda>r. (time r, temperature r)) (rows df))],
                     secondary_chart_1 =
                       Chart Area [([], map (\<lambda>r. (time r, humidity r)) (rows df))],
                     secondary_chart_2 =
                       Chart Bar [([], map (\<lambda>r. (time r, precipitation r)) (rows df))],
                     last_update = clock w 0\<rparr>))"

text \<open>
  \<^verbatim>\<open>
  def update_dashboard(n_clicks, n_intervals, data_type, time_range, location):
      if data_type == 'crypto':
          return update_crypto_dashboard(time_range)
      elif data_type == 'weather':
          return update_weather_dashboard(time_range, location or "New York")
      else:
          return update_stocks_dashboard(time_range)
  \<close>
  \<^verbatim>\<open>location or "New York"\<close> replaces \<^verbatim>\<open>None\<close> and the empty string.
\<close>

definition location_or_default :: "string option \<Rightarrow> string" where
  "location_or_default loc =
     (case loc of None \<Rightarrow> ''New York'' | Some s \<Rightarrow> if s = [] then ''New York'' else s)"

definition update_dashboard ::
  "world \<Rightarrow> nat \<Rightarrow> nat \<Rightarrow> string \<Rightarrow> nat \<Rightarrow> string option \<Rightarrow> exn + dashboard" where
  "update_dashboard w n_clicks n_intervals data_type time_range loc =
     (if data_type = ''crypto'' then update_crypto_dashboard w time_range
      else if data_type = ''weather'' then
        update_weather_dashboard w time_range (location_or_default loc)
      else update_stocks_dashboard w time_range)"

section \<open>Notions used to state the properties\<close>

text \<open>A request failed: it raised, or the status of the response is not 200.\<close>

definition failed :: "'a http_result \<Rightarrow> bool" where
  "failed r = (case r of Raised e \<Rightarrow> True | Response status body \<Rightarrow> status \<noteq> 200)"

text \<open>What one pass of the loop of \<open>fetch_crypto_data\<close> appends to \<^verbatim>\<open>data\<close>, and the
  rows a coin contributes to the output: those of the frame appended for it.\<close>

definition appended :: "market_chart \<Rightarrow> nat \<Rightarrow> string \<Rightarrow> series_row frame list" where
  "appended get days coin =
     (case coin_try (get coin days) coin of
        Inr (Some df) \<Rightarrow> [df]
      | Inr None \<Rightarrow> []
      | Inl e \<Rightarrow> [])"

definition coin_rows :: "market_chart \<Rightarrow> nat \<Rightarrow> string \<Rightarrow> series_row list" where
  "coin_rows get days coin = concat (map rows (appended get days coin))"

text \<open>What a row says, whatever the type of the price column: its instant, the
  value of its price and its label.\<close>

definition row_view :: "series_row \<Rightarrow> int \<times> real \<times> string" where
  "row_view r = (timestamp r, value_of (price r), series_label r)"

text \<open>The epoch milliseconds whose instant a timestamp can hold.\<close>

definition in_bounds_ms :: "int \<Rightarrow> bool" where
  "in_bounds_ms ms = (- 9223372036854 \<le> ms \<and> ms \<le> 9223372036854)"

text \<open>The value before the last one of a series, when there is one.\<close>

definition second_to_last :: "'a list \<Rightarrow> 'a option" where
  "second_to_last xs = (if 2 \<le> length xs then Some (xs ! (length xs - 2)) else None)"

text \<open>
  The two percent changes of a non-empty series of prices, by their formulas. The
  last-step change is \<open>(last - prev) / prev * 100\<close> for the value \<open>prev\<close> before the
  last one, and NaN when there is none. The whole-range change is
  \<open>(last - first) / first * 100\<close>, where the difference of two integers is their
  difference in 64 bits. A zero divisor gives a float that is not finite.
\<close>

definition prices_of :: "series_row frame \<Rightarrow> string \<Rightarrow> number list" where
  "prices_of df l = map price (filter (\<lambda>r. series_label r = l) (rows df))"

definition last_step_change :: "number list \<Rightarrow> real option" where
  "last_step_change xs =
     (case second_to_last xs of
        None \<Rightarrow> None
      | Some prev \<Rightarrow>
          if value_of prev = 0 then None
          else Some ((value_of (last xs) - value_of prev) / value_of prev * 100))"

definition difference :: "number \<Rightarrow> number \<Rightarrow> real" where
  "difference a b =
     (case (a, b) of
        (PyInt x, PyInt y) \<Rightarrow> real_of_int (sint (x - y))
      | _ \<Rightarrow> value_of a - value_of b)"

definition whole_range_change :: "number list \<Rightarrow> real option" where
  "whole_range_change xs =
     (if value_of (hd xs) = 0 then None
      else Some (difference (last xs) (hd xs) / value_of (hd xs) * 100))"

text \<open>The length of the shortest of the four hourly arrays.\<close>

definition shortest :: "hourly \<Rightarrow> nat" where
  "shortest data =
     min (length (hourly_time data))
       (min (length (temperature_2m data))
          (min (length (relative_humidity_2m data)) (length (hourly_precipitation data))))"

subsection \<open>Sample services\<close>

definition sample_market :: market_chart where
  "sample_market coin days =
     (if coin = ''bitcoin'' then
        Response 200 (Inr [(1700000000000, PyFloat 35000), (1700000060000, PyFloat 35350)])
      else if coin = ''ethereum'' then Response 429 (Inl JSONDecodeError)
      else if coin = ''LiteCoin'' then
        Response 200 (Inr [(1700000000000, PyInt 70), (1700000060000, PyInt 77)])
      else if coin = ''tether'' then Response 200 (Inr [(10000000000000000, PyFloat 1.5)])
      else Raised RequestException)"

definition market_down :: market_chart where
  "market_down coin days = (if coin = ''bitcoin'' then Response 503 (Inr []) else Raised RequestException)"

definition integer_market :: market_chart where
  "integer_market coin days =
     (if coin = ''bitcoin'' then
        Response 200 (Inr [(1700000000000, PyInt (- 4611686018427387904)),
                           (1700000060000, PyInt 4611686018427387909)])
      else Raised RequestException)"

definition busy_market :: market_chart where
  "busy_market coin days =
     (if coin = ''bitcoin'' then
        Response 200 (Inr [(1700000000000, PyInt 35000), (1700000060000, PyInt 35350)])
      else if coin = ''ethereum'' then
        Response 200 (Inr [(1700000000000, PyInt 2000), (1700000060000, PyInt 1900),
                           (1700000120000, PyInt 2090)])
      else if coin = ''cardano'' then Response 200 (Inr [(1700000000000, PyInt 1)])
      else Raised RequestException)"

definition sample_geocoding :: geocoding where
  "sample_geocoding place_name =
     (if place_name = ''Paris'' then
        Response 200 (Inr (Some [\<lparr>latitude = 48.85, longitude = 2.35, name = ''Paris''\<rparr>,
                                 \<lparr>latitude = 33.66, longitude = - 95.55, name = ''Paris''\<rparr>]))
      else if place_name = ''Atlantis'' then Response 200 (Inr (Some []))
      else if place_name = ''Nowhere'' then Response 200 (Inr None)
      else if place_name = ''Garbled'' then Response 200 (Inl JSONDecodeError)
      else if place_name = ''Busy'' then Response 429 (Inr None)
      else Raised RequestException)"

text \<open>
  A parser that knows two formats, \<^verbatim>\<open>%Y-%m-%dT%H:%M\<close> and \<^verbatim>\<open>%m/%d/%Y %H:%M\<close>. A
  pattern is matched character by character, \<open>d\<close> standing for a digit; the
  instant of a date is counted from the days since the epoch in the Gregorian
  calendar.
\<close>

definition is_digit :: "char \<Rightarrow> bool" where
  "is_digit c = (let n = (of_char c :: nat) in 48 \<le> n \<and> n \<le> 57)"

definition has_shape :: "string \<Rightarrow> string \<Rightarrow> bool" where
  "has_shape pattern s = list_all2 (\<lambda>p c. if p = CHR ''d'' then is_digit c else c = p) pattern s"

definition digits_value :: "string \<Rightarrow> int" where
  "digits_value s = foldl (\<lambda>n c. 10 * n + (int (of_char c) - 48)) 0 s"

definition leap_year :: "int \<Rightarrow> bool" where
  "leap_year y = (y mod 4 = 0 \<and> (y mod 100 \<noteq> 0 \<or> y mod 400 = 0))"

definition days_in_month :: "int \<Rightarrow> int \<Rightarrow> int" where
  "days_in_month y m =
     (if m = 2 then (if leap_year y then 29 else 28)
      else if m = 4 \<or> m = 6 \<or> m = 9 \<or> m = 11 then 30 else 31)"

definition days_from_civil :: "int \<Rightarrow> int \<Rightarrow> int \<Rightarrow> int" where
  "days_from_civil y m d =
     (let y' = (if m \<le> 2 then y - 1 else y);
          era = y' div 400;
          yoe = y' - era * 400;
          doy = (153 * (if 2 < m then m - 3 else m + 9) + 2) div 5 + d - 1;
          doe = yoe * 365 + yoe div 4 - yoe div 100 + doy
      in era * 146097 + doe - 719468)"

definition civil_instant :: "int \<Rightarrow> int \<Rightarrow> int \<Rightarrow> int \<Rightarrow> int \<Rightarrow> exn + int" where
  "civil_instant y m d h mi =
     (if 1 \<le> m \<and> m \<le> 12 \<and> 1 \<le> d \<and> d \<le> days_in_month y m \<and> h < 24 \<and> mi < 60 then
        (let ns = (((days_from_civil y m d * 24 + h) * 60 + mi) * 60) * 1000000000
         in if - (2 ^ 63) < ns \<and> ns < 2 ^ 63 then Inr ns else Inl OutOfBoundsDatetime)
      else Inl ValueError)"

definition sample_guess :: "string \<Rightarrow> string option" where
  "sample_guess s =
     (if has_shape ''dddd-dd-ddTdd:dd'' s then Some ''%Y-%m-%dT%H:%M''
      else if has_shape ''dd/dd/dddd dd:dd'' s then Some ''%m/%d/%Y %H:%M''
      else None)"

definition sample_strptime :: "string \<Rightarrow> string \<Rightarrow> exn + int" where
  "sample_strptime fmt s =
     (if fmt = ''%Y-%m-%dT%H:%M'' \<and> has_shape ''dddd-dd-ddTdd:dd'' s then
        civil_instant (digits_value (take 4 s)) (digits_value (take 2 (drop 5 s)))
          (digits_value (take 2 (drop 8 s))) (digits_value (take 2 (drop 11 s)))
          (digits_value (take 2 (drop 14 s)))
      else if fmt = ''%m/%d/%Y %H:%M'' \<and> has_shape ''dd/dd/dddd dd:dd'' s then
        civil_instant (digits_value (take 4 (drop 6 s))) (digits_value (take 2 s))
          (digits_value (take 2 (drop 3 s))) (digits_value (take 2 (drop 11 s)))
          (digits_value (take 2 (drop 14 s)))
      else Inl ValueError)"

definition sample_format_free :: "string \<Rightarrow> int option" where
  "sample_format_free s = (if s = [] \<or> s = ''NaT'' then Some NaT else None)"

definition no_dateutil :: "string \<Rightarrow> exn + int" where
  "no_dateutil s = Inl ValueError"

definition sample_parse :: datetime_parser where
  "sample_parse =
     \<lparr>format_free = sample_format_free, guess_datetime_format = sample_guess,
      strptime = sample_strptime, dateutil_parse = no_dateutil\<rparr>"

text \<open>The hours of the first of January 2024, and a forecast for them.\<close>

definition hour_string :: "nat \<Rightarrow> string" where
  "hour_string h = ''2024-01-01T'' @ [char_of (48 + h div 10), char_of (48 + h mod 10)] @ '':00''"

definition sample_hourly :: hourly where
  "sample_hourly =
     \<lparr>hourly_time = map hour_string [0..<24],
      temperature_2m = map (\<lambda>h. real h / 2) [0..<24],
      relative_humidity_2m = map (\<lambda>h. 90 - real h) [0..<24],
      hourly_precipitation = map (\<lambda>h. if h = 12 then 3 / 2 else 0) [0..<24]\<rparr>"

definition sample_forecast :: forecast where
  "sample_forecast lat lon days = Response 200 (Inr sample_hourly)"

definition ragged_forecast :: forecast where
  "ragged_forecast lat lon days =
     Response 200 (Inr \<lparr>hourly_time = [''2024-01-01T00:00'', ''2024-01-01T01:00''],
                        temperature_2m = [4], relative_humidity_2m = [80, 75],
                        hourly_precipitation = [0, 1]\<rparr>)"


definition unit_steps :: "nat \<Rightarrow> real" where
  "unit_steps k = 1"

definition clock_from :: "int \<Rightarrow> nat \<Rightarrow> int" where
  "clock_from t k = t + 1000 * int k"

definition sample_world :: world where
  "sample_world =
     \<lparr>market_chart_api = sample_market, geocoding_api = sample_geocoding,
      forecast_api = sample_forecast, parse_time = sample_parse,
      generator = unit_steps, clock = clock_from 1704067200000000000\<rparr>"

definition offline_world :: world where
  "offline_world = sample_world\<lparr>market_chart_api := market_down\<rparr>"

definition integer_world :: world where
  "integer_world = sample_world\<lparr>market_chart_api := integer_market\<rparr>"

definition busy_world :: world where
  "busy_world = sample_world\<lparr>market_chart_api := busy_market\<rparr>"

section \<open>Properties of the crypto pipeline\<close>

lemma mapE_map: "(\<And>x. x \<in> set xs \<Longrightarrow> f x = Inr (g x)) \<Longrightarrow> mapE f xs = Inr (map g xs)"
  by (induction xs) simp_all

lemma mapE_Inl: "x \<in> set xs \<Longrightarrow> f x = Inl e \<Longrightarrow> \<exists>e'. mapE f xs = Inl e'"
  by (induction xs) (auto split: sum.splits)

lemma mapE_length: "mapE f xs = Inr ys \<Longrightarrow> length ys = length xs"
  by (induction xs arbitrary: ys) (auto split: sum.splits)


lemma astype_common_length: "length (astype_common rs) = length rs"
  by (simp add: astype_common_def)

lemma row_view_astype_common: "map row_view (astype_common rs) = map row_view rs"
  by (simp add: astype_common_def row_view_def to_float_def value_of_def)

lemma astype_common_floats:
  assumes "\<And>r. r \<in> set rs \<Longrightarrow> \<not> is_int (price r)"
  shows "astype_common rs = rs"
proof -
  have "r\<lparr>price := to_float (price r)\<rparr> = r" if "r \<in> set rs" for r
    using assms [OF that] by (cases "price r") (simp_all add: is_int_def to_float_def value_of_def)
  then have "map (\<lambda>r. r\<lparr>price := to_float (price r)\<rparr>) rs = rs"
    by (simp add: map_idI)
  then show ?thesis by (simp add: astype_common_def)
qed

lemma fetch_loop_eq:
  "fetch_loop get days coins data = data @ concat (map (appended get days) coins)"
  by (induction coins arbitrary: data) (auto simp: appended_def split: sum.splits option.splits)

lemma rows_appended_list:
  "concat (map rows (concat (map (appended get days) coins))) =
   concat (map (coin_rows get days) coins)"
  by (induction coins) (simp_all add: coin_rows_def)

lemma fetch_crypto_data_Inr:
  "\<exists>df. fetch_crypto_data get coins days = Inr df \<and>
        rows df = astype_common (concat (map (coin_rows get days) coins))"
proof (cases "concat (map (appended get days) coins) = []")
  case True
  have "concat (map rows (concat (map (appended get days) coins))) = []"
    by (simp only: True list.map concat.simps)
  then have "concat (map (coin_rows get days) coins) = []"
    by (simp only: rows_appended_list)
  with True show ?thesis
    by (simp add: fetch_crypto_data_def fetch_loop_eq DataFrame_def astype_common_def)
next
  case False
  then show ?thesis
    by (simp add: fetch_crypto_data_def Let_def fetch_loop_eq pd_concat_def rows_appended_list
        del: concat_eq_Nil_conv)
qed

lemma appended_failed: "failed (get coin days) \<Longrightarrow> appended get days coin = []"
  by (auto simp: failed_def appended_def coin_try_def split: http_result.splits)

lemma to_datetime_ms_in_bounds:
  "in_bounds_ms (sint ms) \<Longrightarrow> to_datetime_ms ms = Inr (sint ms * 1000000)"
  by (simp add: in_bounds_ms_def to_datetime_ms_def NaT_def)

lemma to_datetime_ms_out_of_bounds:
  "\<not> in_bounds_ms (sint ms) \<Longrightarrow> sint ms \<noteq> NaT \<Longrightarrow>
   to_datetime_ms ms = Inl OutOfBoundsDatetime"
  by (auto simp: in_bounds_ms_def to_datetime_ms_def Let_def)

lemma zip_instants:
  "map (\<lambda>(t, (ms, p)). R t p) (zip (map (\<lambda>(ms, p). F ms) prices) prices) =
   map (\<lambda>(ms, p). R (F ms) p) prices"
  by (induction prices) auto

lemma coin_rows_success:
  assumes "get coin days = Response 200 (Inr prices)"
    and "\<forall>(ms, p) \<in> set prices. in_bounds_ms (sint ms)"
  shows "coin_rows get days coin =
     astype_common
       (map (\<lambda>(ms, p). \<lparr>timestamp = sint ms * 1000000, price = p,
                         series_label = capitalize coin\<rparr>)
          prices)"
proof -
  have "mapE (\<lambda>(ms, p). to_datetime_ms ms) prices =
      Inr (map (\<lambda>(ms, p). sint ms * 1000000) prices)"
    using assms(2) by (intro mapE_map) (auto simp: to_datetime_ms_in_bounds)
  then show ?thesis
    using assms(1)
    by (simp add: coin_rows_def appended_def coin_try_def coin_frame_def zip_instants)
qed

lemma coin_rows_out_of_bounds:
  assumes "get coin days = Response 200 (Inr prices)"
    and "(ms, p) \<in> set prices" and "\<not> in_bounds_ms (sint ms)" and "sint ms \<noteq> NaT"
  shows "coin_rows get days coin = []"
proof -
  have "(\<lambda>(ms, p). to_datetime_ms ms) (ms, p) = Inl OutOfBoundsDatetime"
    using assms(3,4) by (simp add: to_datetime_ms_out_of_bounds)
  then obtain e where "mapE (\<lambda>(ms, p). to_datetime_ms ms) prices = Inl e"
    using mapE_Inl [OF assms(2)] by blast
  then show ?thesis
    using assms(1) by (simp add: coin_rows_def appended_def coin_try_def coin_frame_def)
qed

lemma appended_all_failed:
  "\<forall>coin \<in> set coins. failed (get coin days) \<Longrightarrow> concat (map (appended get days) coins) = []"
  by (induction coins) (simp_all add: appended_failed)

lemma fetch_all_failed:
  "\<forall>coin \<in> set coins. failed (get coin days) \<Longrightarrow>
   fetch_crypto_data get coins days = Inr DataFrame"
  by (simp add: fetch_crypto_data_def fetch_loop_eq appended_all_failed)

text \<open>
  C1, as the code has it. When the request for a coin of the list succeeds with a
  payload of \<open>(epoch_ms, price)\<close> pairs whose instants all fit a timestamp,
  \<open>fetch_crypto_data\<close> returns a table whose rows are the rows of the coins one
  after the other, in the order of the list, the price column brought to one
  type; the coin contributes one row per pair, in the order of the payload, each
  with the instant of its epoch milliseconds, the value of its price, and the
  capitalized coin name as label: the first character in upper case and the others
  in lower case. A payload with an instant that does not fit a timestamp makes
  the conversion raise, and its coin contributes no row; the least 64-bit
  integer, which is no instant, does not make it raise.
\<close>

theorem fetch_crypto_data_rows:
  assumes "i < length coins"
    and "get (coins ! i) days = Response 200 (Inr prices)"
    and "\<forall>(ms, p) \<in> set prices. in_bounds_ms (sint ms)"
  shows "(\<exists>df. fetch_crypto_data get coins days = Inr df \<and>
            rows df = astype_common (concat (map (coin_rows get days) coins)) \<and>
            map row_view (rows df) =
              concat (map (\<lambda>coin. map row_view (coin_rows get days coin)) coins)) \<and>
         coin_rows get days (coins ! i) =
           astype_common
             (map (\<lambda>(ms, p). \<lparr>timestamp = sint ms * 1000000, price = p,
                              series_label = capitalize (coins ! i)\<rparr>) prices) \<and>
         map row_view (coin_rows get days (coins ! i)) =
           map (\<lambda>(ms, p). (sint ms * 1000000, value_of p, capitalize (coins ! i))) prices \<and>
         length (coin_rows get days (coins ! i)) = length prices \<and>
         capitalize ''bitCOIN-2'' = ''Bitcoin-2'' \<and>
         in_bounds_ms 9223372036854 \<and> \<not> in_bounds_ms 9223372036855 \<and>
         in_bounds_ms (- 9223372036854) \<and> \<not> in_bounds_ms (- 9223372036855) \<and>
         (get c days = Response 200 (Inr ps) \<and>
          (\<exists>(ms, p) \<in> set ps. \<not> in_bounds_ms (sint ms) \<and> sint ms \<noteq> NaT) \<longrightarrow>
            coin_rows get days c = [])"
proof -
  obtain df where df: "fetch_crypto_data get coins days = Inr df"
    and rws: "rows df = astype_common (concat (map (coin_rows get days) coins))"
    using fetch_crypto_data_Inr by blast
  have view: "map row_view (rows df) =
      concat (map (\<lambda>coin. map row_view (coin_rows get days coin)) coins)"
    unfolding rws by (simp add: row_view_astype_common map_concat comp_def)
  have own: "coin_rows get days (coins ! i) =
           astype_common
             (map (\<lambda>(ms, p). \<lparr>timestamp = sint ms * 1000000, price = p,
                              series_label = capitalize (coins ! i)\<rparr>) prices)"
    using coin_rows_success [of get "coins ! i" days prices] assms(2,3) by simp
  have own_view: "map row_view (coin_rows get days (coins ! i)) =
           map (\<lambda>(ms, p). (sint ms * 1000000, value_of p, capitalize (coins ! i))) prices"
    unfolding own by (simp add: row_view_astype_common row_view_def split_def)
  have len: "length (coin_rows get days (coins ! i)) = length prices"
    unfolding own by (simp add: astype_common_length)
  have cap: "capitalize ''bitCOIN-2'' = ''Bitcoin-2''"
    by code_simp
  have bounds: "in_bounds_ms 9223372036854" "\<not> in_bounds_ms 9223372036855"
    "in_bounds_ms (- 9223372036854)" "\<not> in_bounds_ms (- 9223372036855)"
    by (simp_all add: in_bounds_ms_def)
  have out: "coin_rows get days c = []"
    if "get c days = Response 200 (Inr ps)"
      and "\<exists>(ms, p) \<in> set ps. \<not> in_bounds_ms (sint ms) \<and> sint ms \<noteq> NaT"
    using that coin_rows_out_of_bounds [of get c days ps] by auto
  show ?thesis
    using df rws view own own_view len cap bounds out by blast
qed

theorem fetch_crypto_data_rows_witness:
  "\<exists>df. fetch_crypto_data sample_market [''bitcoin'', ''ethereum'', ''LiteCoin'', ''tether''] 7 =
          Inr df \<and>
     rows df =
       [\<lparr>timestamp = 1700000000000000000, price = PyFloat 35000, series_label = ''Bitcoin''\<rparr>,
        \<lparr>timestamp = 1700000060000000000, price = PyFloat 35350, series_label = ''Bitcoin''\<rparr>,
        \<lparr>timestamp = 1700000000000000000, price = PyFloat 70, series_label = ''Litecoin''\<rparr>,
        \<lparr>timestamp = 1700000060000000000, price = PyFloat 77, series_label = ''Litecoin''\<rparr>]"
proof -
  let ?coins = "[''bitcoin'', ''ethereum'', ''LiteCoin'', ''tether'']"
  let ?btc = "[(1700000000000 :: 64 word, PyFloat 35000), (1700000060000, PyFloat 35350)]"
  let ?ltc = "[(1700000000000 :: 64 word, PyInt 70), (1700000060000, PyInt 77)]"
  let ?usdt = "[(10000000000000000 :: 64 word, PyFloat 1.5)]"
  have i0: "(0::nat) < length ?coins" and i2: "(2::nat) < length ?coins"
    by simp_all
  have b: "sample_market (?coins ! 0) 7 = Response 200 (Inr ?btc)"
    and l: "sample_market (?coins ! 2) 7 = Response 200 (Inr ?ltc)"
    and t: "sample_market ''tether'' 7 = Response 200 (Inr ?usdt)"
    by (simp_all add: sample_market_def)
  have qb: "\<forall>(ms, p) \<in> set ?btc. in_bounds_ms (sint ms)"
    and ql: "\<forall>(ms, p) \<in> set ?ltc. in_bounds_ms (sint ms)"
    by (simp_all add: in_bounds_ms_def)
  note T0 = fetch_crypto_data_rows [of 0 ?coins sample_market 7 ?btc "''tether''" ?usdt, OF i0 b qb]
  note T2 = fetch_crypto_data_rows [of 2 ?coins sample_market 7 ?ltc "''tether''" ?usdt, OF i2 l ql]
  have cb: "capitalize ''bitcoin'' = ''Bitcoin''" and cl: "capitalize ''LiteCoin'' = ''Litecoin''"
    by code_simp+
  have eth: "coin_rows sample_market 7 ''ethereum'' = []"
    by (simp add: coin_rows_def appended_def coin_try_def sample_market_def)
  from T0 have "coin_rows sample_market 7 (?coins ! 0) =
      astype_common (map (\<lambda>(ms, p). \<lparr>timestamp = sint ms * 1000000, price = p,
                              series_label = capitalize (?coins ! 0)\<rparr>) ?btc)"
    by blast
  then have vb: "coin_rows sample_market 7 ''bitcoin'' =
      [\<lparr>timestamp = 1700000000000000000, price = PyFloat 35000, series_label = ''Bitcoin''\<rparr>,
       \<lparr>timestamp = 1700000060000000000, price = PyFloat 35350, series_label = ''Bitcoin''\<rparr>]"
    by (simp add: cb astype_common_def is_int_def to_float_def value_of_def
        del: capitalize.simps)
  from T2 have "coin_rows sample_market 7 (?coins ! 2) =
      astype_common (map (\<lambda>(ms, p). \<lparr>timestamp = sint ms * 1000000, price = p,
                              series_label = capitalize (?coins ! 2)\<rparr>) ?ltc)"
    by blast
  then have vl: "coin_rows sample_market 7 ''LiteCoin'' =
      [\<lparr>timestamp = 1700000000000000000, price = PyInt 70, series_label = ''Litecoin''\<rparr>,
       \<lparr>timestamp = 1700000060000000000, price = PyInt 77, series_label = ''Litecoin''\<rparr>]"
    by (simp add: cl astype_common_def is_int_def del: capitalize.simps)
  from T0 have "sample_market ''tether'' 7 = Response 200 (Inr ?usdt) \<and>
      (\<exists>(ms, p) \<in> set ?usdt. \<not> in_bounds_ms (sint ms) \<and> sint ms \<noteq> NaT) \<longrightarrow>
      coin_rows sample_market 7 ''tether'' = []"
    by blast
  then have vt: "coin_rows sample_market 7 ''tether'' = []"
    using t by (simp add: in_bounds_ms_def NaT_def)
  from T0 obtain df where d1: "fetch_crypto_data sample_market ?coins 7 = Inr df"
    and d2: "rows df = astype_common (concat (map (coin_rows sample_market 7) ?coins))"
    by blast
  have "rows df =
       [\<lparr>timestamp = 1700000000000000000, price = PyFloat 35000, series_label = ''Bitcoin''\<rparr>,
        \<lparr>timestamp = 1700000060000000000, price = PyFloat 35350, series_label = ''Bitcoin''\<rparr>,
        \<lparr>timestamp = 1700000000000000000, price = PyFloat 70, series_label = ''Litecoin''\<rparr>,
        \<lparr>timestamp = 1700000060000000000, price = PyFloat 77, series_label = ''Litecoin''\<rparr>]"
    unfolding d2 using eth vb vl vt
    by (simp add: astype_common_def is_int_def to_float_def value_of_def)
  with d1 show ?thesis by (intro exI [of _ df] conjI)
qed

text \<open>
  C1 as the specification words it fails: the request succeeds with a payload of one
  pair whose instant does not fit a timestamp, and no row is emitted.
\<close>

theorem fetch_crypto_data_out_of_bounds:
  "sample_market ''tether'' 7 = Response 200 (Inr [(10000000000000000, PyFloat 1.5)]) \<and>
   length [(10000000000000000 :: 64 word, PyFloat 1.5)] = 1 \<and>
   fetch_crypto_data sample_market [''tether''] 7 = Inr DataFrame \<and>
   length (rows (DataFrame :: series_row frame)) = 0"
  by (simp add: sample_market_def fetch_crypto_data_def coin_try_def coin_frame_def
      to_datetime_ms_def NaT_def DataFrame_def)

text \<open>
  C2. \<open>fetch_crypto_data\<close> never raises. A coin whose request raises or answers with
  a status other than 200 contributes no rows, whatever its place in the list: the
  table is the one computed from the list without that coin, so the rows of the
  other coins are all there.
\<close>

theorem fetch_crypto_data_partial_failure:
  assumes "failed (get coin days)"
  shows "\<exists>df. fetch_crypto_data get (before @ coin # after) days = Inr df \<and>
           rows df = astype_common (concat (map (coin_rows get days) before) @
                                    concat (map (coin_rows get days) after)) \<and>
           fetch_crypto_data get (before @ after) days = Inr df"
proof -
  obtain df where df: "fetch_crypto_data get (before @ after) days = Inr df"
    and rws: "rows df = astype_common (concat (map (coin_rows get days) (before @ after)))"
    using fetch_crypto_data_Inr by blast
  have "fetch_crypto_data get (before @ coin # after) days =
        fetch_crypto_data get (before @ after) days"
    using appended_failed [of get coin days] assms
    by (simp add: fetch_crypto_data_def fetch_loop_eq)
  with df rws show ?thesis by simp
qed

theorem fetch_crypto_data_partial_failure_witness:
  "failed (sample_market ''ethereum'' 7) \<and>
   (\<exists>df. fetch_crypto_data sample_market ([''cardano''] @ ''ethereum'' # [''bitcoin'']) 7 = Inr df \<and>
      fetch_crypto_data sample_market ([''cardano''] @ [''bitcoin'']) 7 = Inr df \<and>
      length (rows df) = 2)"
proof -
  have f: "failed (sample_market ''ethereum'' 7)"
    by (simp add: failed_def sample_market_def)
  have car: "coin_rows sample_market 7 ''cardano'' = []"
    by (simp add: coin_rows_def appended_def coin_try_def sample_market_def)
  have btc: "length (coin_rows sample_market 7 ''bitcoin'') = 2"
    by (simp add: coin_rows_def appended_def coin_try_def coin_frame_def sample_market_def
        to_datetime_ms_def NaT_def astype_common_length)
  show ?thesis
    using f fetch_crypto_data_partial_failure
      [of sample_market "''ethereum''" 7 "[''cardano'']" "[''bitcoin'']"]
    by (auto simp: car btc astype_common_length)
qed

section \<open>Properties of geocoding and of the weather pipeline\<close>

text \<open>
  C3. \<open>get_coordinates\<close> is a total function to triples, so nothing it calls can
  make it raise. It returns the latitude, longitude and name of the first result
  when the request answers with status 200 and a non-empty \<^verbatim>\<open>results\<close> list, and
  the triple \<open>(40.7128, -74.0060, "New York")\<close> in every other case: the request
  raised, the status is not 200, the body cannot be decoded, the key \<^verbatim>\<open>results\<close>
  is missing, or the list is empty.
\<close>

theorem get_coordinates_fallback:
  "(geocode loc = Response 200 (Inr (Some (result # rest))) \<longrightarrow>
      get_coordinates geocode loc = (latitude result, longitude result, name result)) \<and>
   ((\<forall>first others. geocode loc \<noteq> Response 200 (Inr (Some (first # others)))) \<longrightarrow>
      get_coordinates geocode loc = (40.7128, - 74.0060, ''New York'')) \<and>
   (geocode loc = Raised e \<longrightarrow>
      get_coordinates geocode loc = (40.7128, - 74.0060, ''New York'')) \<and>
   (geocode loc = Response status body \<and> status \<noteq> 200 \<longrightarrow>
      get_coordinates geocode loc = (40.7128, - 74.0060, ''New York'')) \<and>
   (geocode loc = Response 200 (Inl e) \<longrightarrow>
      get_coordinates geocode loc = (40.7128, - 74.0060, ''New York'')) \<and>
   (geocode loc = Response 200 (Inr None) \<longrightarrow>
      get_coordinates geocode loc = (40.7128, - 74.0060, ''New York'')) \<and>
   (geocode loc = Response 200 (Inr (Some [])) \<longrightarrow>
      get_coordinates geocode loc = (40.7128, - 74.0060, ''New York''))"
  by (auto simp: get_coordinates_def geocode_try_def default_coordinates_def
      split: http_result.splits sum.splits option.splits list.splits)

theorem get_coordinates_fallback_witness:
  "get_coordinates sample_geocoding ''Paris'' = (48.85, 2.35, ''Paris'') \<and>
   get_coordinates sample_geocoding ''Atlantis'' = (40.7128, - 74.0060, ''New York'') \<and>
   get_coordinates sample_geocoding ''Nowhere'' = (40.7128, - 74.0060, ''New York'') \<and>
   get_coordinates sample_geocoding ''Garbled'' = (40.7128, - 74.0060, ''New York'') \<and>
   get_coordinates sample_geocoding ''Busy'' = (40.7128, - 74.0060, ''New York'') \<and>
   get_coordinates sample_geocoding ''Offline'' = (40.7128, - 74.0060, ''New York'')"
  using
    get_coordinates_fallback [of sample_geocoding "''Paris''"
      "\<lparr>latitude = 48.85, longitude = 2.35, name = ''Paris''\<rparr>"
      "[\<lparr>latitude = 33.66, longitude = - 95.55, name = ''Paris''\<rparr>]"]
    get_coordinates_fallback [of sample_geocoding "''Atlantis''"]
    get_coordinates_fallback [of sample_geocoding "''Nowhere''"]
    get_coordinates_fallback [of sample_geocoding "''Garbled''" _ _ JSONDecodeError]
    get_coordinates_fallback [of sample_geocoding "''Busy''" _ _ _ 429 "Inr None"]
    get_coordinates_fallback [of sample_geocoding "''Offline''" _ _ RequestException]
  by (simp add: sample_geocoding_def)

lemma to_datetime_list_length:
  "to_datetime_list p ss = Inr ts \<Longrightarrow> length ts = length ss"
  unfolding to_datetime_list_def Let_def by (rule mapE_length)


lemma weather_mismatch:
  assumes "\<not> (length (temperature_2m data) = length (hourly_time data) \<and>
              length (relative_humidity_2m data) = length (hourly_time data) \<and>
              length (hourly_precipitation data) = length (hourly_time data))"
  shows "\<exists>e. weather_try parse (Response 200 (Inr data)) resolved = Inl e"
proof (cases "to_datetime_list parse (hourly_time data)")
  case (Inl e)
  then show ?thesis by (simp add: weather_try_def)
next
  case (Inr ts)
  then have "length ts = length (hourly_time data)"
    using to_datetime_list_length by blast
  with assms Inr show ?thesis
    by (auto simp: weather_try_def DataFrame_of_columns_def)
qed

lemma paris: "get_coordinates sample_geocoding ''Paris'' = (48.85, 2.35, ''Paris'')"
  by (simp add: get_coordinates_def geocode_try_def sample_geocoding_def)

text \<open>
  C5, as the code has it. When the four hourly arrays of a response with status
  200 do not all have the same length, the table constructor raises, the handler
  catches the exception, and \<open>fetch_weather_data\<close> returns the empty table: no row
  is emitted and nothing is truncated.
\<close>

theorem fetch_weather_data_mismatch_empty:
  assumes "get_coordinates geocode loc = (lat, lon, resolved)"
    and "get lat lon days = Response 200 (Inr data)"
    and "\<not> (length (temperature_2m data) = length (hourly_time data) \<and>
              length (relative_humidity_2m data) = length (hourly_time data) \<and>
              length (hourly_precipitation data) = length (hourly_time data))"
  shows "fetch_weather_data geocode get parse loc days = DataFrame \<and>
         rows (fetch_weather_data geocode get parse loc days) = []"
proof -
  obtain e where "weather_try parse (Response 200 (Inr data)) resolved = Inl e"
    using weather_mismatch [OF assms(3)] by blast
  then show ?thesis
    using assms(1,2) by (simp add: fetch_weather_data_def DataFrame_def)
qed

theorem fetch_weather_data_mismatch_empty_witness:
  "get_coordinates sample_geocoding ''Paris'' = (48.85, 2.35, ''Paris'') \<and>
   fetch_weather_data sample_geocoding ragged_forecast sample_parse ''Paris'' 1 = DataFrame"
  using paris
    fetch_weather_data_mismatch_empty [of sample_geocoding "''Paris''" "48.85" "2.35" "''Paris''"
      ragged_forecast 1
      "\<lparr>hourly_time = [''2024-01-01T00:00'', ''2024-01-01T01:00''],
        temperature_2m = [4], relative_humidity_2m = [80, 75],
        hourly_precipitation = [0, 1]\<rparr>" sample_parse]
  by (simp add: ragged_forecast_def)

text \<open>
  C5 as the specification words it fails: on the ragged response the shortest
  array has one element, and no row is emitted.
\<close>

theorem fetch_weather_data_no_truncation:
  "shortest \<lparr>hourly_time = [''2024-01-01T00:00'', ''2024-01-01T01:00''],
             temperature_2m = [4], relative_humidity_2m = [80, 75],
             hourly_precipitation = [0, 1]\<rparr> = 1 \<and>
   ragged_forecast 48.85 2.35 1 =
     Response 200 (Inr \<lparr>hourly_time = [''2024-01-01T00:00'', ''2024-01-01T01:00''],
             temperature_2m = [4], relative_humidity_2m = [80, 75],
             hourly_precipitation = [0, 1]\<rparr>) \<and>
   length (rows (fetch_weather_data sample_geocoding ragged_forecast sample_parse ''Paris'' 1)) = 0"
proof -
  have "to_datetime_list sample_parse [''2024-01-01T00:00'', ''2024-01-01T01:00''] =
        Inr [1704067200000000000, 1704070800000000000]"
    by code_simp
  then show ?thesis
    by (simp add: shortest_def ragged_forecast_def fetch_weather_data_def paris weather_try_def
        DataFrame_of_columns_def DataFrame_def)
qed




section \<open>Properties of the mock stock generator\<close>

lemma stock_loop_enumerate:
  "stock_loop now randn days symbols j data =
     data @ map (\<lambda>(k, s). symbol_frame (now k) (map randn [k * days..<k * days + days]) s days)
              (enumerate j symbols)"
  by (induction symbols arbitrary: j data) simp_all

lemma stock_loop_eq:
  "stock_loop now randn days symbols 0 [] =
     map (\<lambda>k. symbol_frame (now k) (map randn [k * days..<k * days + days]) (symbols ! k) days)
       [0..<length symbols]"
  unfolding stock_loop_enumerate
  by (rule nth_equalityI) (simp_all add: nth_enumerate_eq)

lemma cumsum_from_length: "length (cumsum_from acc xs) = length xs"
  by (induction xs arbitrary: acc) simp_all

lemma cumsum_from_nth:
  "i < length xs \<Longrightarrow> cumsum_from acc xs ! i = acc + sum_list (take (Suc i) xs)"
proof (induction xs arbitrary: acc i)
  case Nil
  then show ?case by simp
next
  case (Cons x xs)
  then show ?case by (cases i) (simp_all add: add.assoc)
qed

lemma sum_list_steps:
  fixes randn :: "nat \<Rightarrow> real"
  assumes le: "Suc i \<le> d"
  shows "sum_list (take (Suc i) (map (\<lambda>z. z * 5) (map randn [a..<a + d]))) =
         (\<Sum>k\<le>i. randn (a + k) * 5)"
proof -
  have "take (Suc i) (map (\<lambda>z. z * 5) (map randn [a..<a + d])) =
        map (\<lambda>k. randn k * 5) [a..<a + Suc i]"
    using le by (simp add: take_map take_upt del: upt_Suc)
  also have "sum_list \<dots> = sum (\<lambda>k. randn k * 5) {a..<a + Suc i}"
    by (simp add: interv_sum_list_conv_sum_set_nat del: upt_Suc)
  also have "\<dots> = sum (\<lambda>k. randn (k + a) * 5) {0..<Suc i}"
    using sum.shift_bounds_nat_ivl [of "\<lambda>k. randn k * 5" 0 a "Suc i"] by (simp add: add.commute)
  also have "\<dots> = (\<Sum>k\<le>i. randn (a + k) * 5)"
    by (simp add: atLeast0LessThan lessThan_Suc_atMost add.commute)
  finally show ?thesis .
qed

lemma symbol_frame_rows:
  "rows (symbol_frame today (map randn [a..<a + days]) symbol days) =
     map (\<lambda>i. \<lparr>timestamp = today - (int days - 1 - int i) * day_ns,
                price = PyFloat (base_price symbol + (\<Sum>k\<le>i. randn (a + k) * 5)),
                series_label = symbol\<rparr>) [0..<days]"
proof (rule nth_equalityI)
  show "length (rows (symbol_frame today (map randn [a..<a + days]) symbol days)) =
        length (map (\<lambda>i. \<lparr>timestamp = today - (int days - 1 - int i) * day_ns,
                price = PyFloat (base_price symbol + (\<Sum>k\<le>i. randn (a + k) * 5)),
                series_label = symbol\<rparr>) [0..<days])"
    by (simp add: symbol_frame_def date_range_def cumsum_def cumsum_from_length)
next
  fix i
  assume "i < length (rows (symbol_frame today (map randn [a..<a + days]) symbol days))"
  then have i: "i < days"
    by (simp add: symbol_frame_def date_range_def cumsum_def cumsum_from_length)
  then have "cumsum_from 0 (map (\<lambda>z. z * 5) (map randn [a..<a + days])) ! i =
             (\<Sum>k\<le>i. randn (a + k) * 5)"
    using cumsum_from_nth [of i "map (\<lambda>z. z * 5) (map randn [a..<a + days])" 0]
      sum_list_steps [of i days randn a] by simp
  then show "rows (symbol_frame today (map randn [a..<a + days]) symbol days) ! i =
        map (\<lambda>i. \<lparr>timestamp = today - (int days - 1 - int i) * day_ns,
                price = PyFloat (base_price symbol + (\<Sum>k\<le>i. randn (a + k) * 5)),
                series_label = symbol\<rparr>) [0..<days] ! i"
    using i by (simp add: symbol_frame_def date_range_def cumsum_def cumsum_from_length)
qed



lemma symbol_frame_columns:
  "columns (symbol_frame today steps symbol days) = [''date'', ''price'', ''symbol'']"
  by (simp add: symbol_frame_def Let_def)

lemma symbol_rows_float:
  "r \<in> set (concat (map (\<lambda>k. rows (symbol_frame (now k) (map randn [k * days..<k * days + days])
                                       (symbols ! k) days)) ks)) \<Longrightarrow>
   \<not> is_int (price r)"
  by (auto simp: symbol_frame_def Let_def is_int_def dest!: set_zip_rightD)

lemma generate_eq:
  "generate_mock_stock_data now randn symbols days =
     (if symbols = [] then Inl ValueError
      else Inr \<lparr>columns = unique (concat (map (\<lambda>k. [''date'', ''price'', ''symbol''])
                                          [0..<length symbols])),
               rows = concat (map (\<lambda>j. map (\<lambda>i.
                  \<lparr>timestamp = now j - (int days - 1 - int i) * day_ns,
                   price = PyFloat (base_price (symbols ! j) + (\<Sum>k\<le>i. randn (j * days + k) * 5)),
                   series_label = symbols ! j\<rparr>) [0..<days]) [0..<length symbols])\<rparr>)"
proof -
  have "astype_common (concat (map (\<lambda>k. rows (symbol_frame (now k)
            (map randn [k * days..<k * days + days]) (symbols ! k) days)) [0..<length symbols])) =
        concat (map (\<lambda>k. rows (symbol_frame (now k)
            (map randn [k * days..<k * days + days]) (symbols ! k) days)) [0..<length symbols])"
    by (intro astype_common_floats) (rule symbol_rows_float)
  then show ?thesis
    by (simp add: generate_mock_stock_data_def stock_loop_eq pd_concat_def comp_def
        symbol_frame_rows symbol_frame_columns)
qed

lemma generate_rows:
  "symbols \<noteq> [] \<Longrightarrow>
   \<exists>df. generate_mock_stock_data now randn symbols days = Inr df \<and>
     rows df = concat (map (\<lambda>j. map (\<lambda>i. \<lparr>timestamp = now j - (int days - 1 - int i) * day_ns,
                price = PyFloat (base_price (symbols ! j) + (\<Sum>k\<le>i. randn (j * days + k) * 5)),
                series_label = symbols ! j\<rparr>) [0..<days]) [0..<length symbols])"
  by (simp add: generate_eq)



text \<open>
  C9, as the code has it. The generator reads the clock as well as the random
  state. With the same random state, symbols and day-count, two runs give the same
  prices and labels, row by row, and the same error if there is one; the dates are
  those of the clock, so the two tables are equal when the clock readings are.
\<close>

theorem generate_mock_stock_data_prices_deterministic:
  "map_sum id (\<lambda>df. map (\<lambda>r. (price r, series_label r)) (rows df))
     (generate_mock_stock_data now1 randn symbols days) =
   map_sum id (\<lambda>df. map (\<lambda>r. (price r, series_label r)) (rows df))
     (generate_mock_stock_data now2 randn symbols days) \<and>
   ((\<forall>k < length symbols. now1 k = now2 k) \<longrightarrow>
      generate_mock_stock_data now1 randn symbols days =
      generate_mock_stock_data now2 randn symbols days)"
proof -
  have a: "map_sum id (\<lambda>df. map (\<lambda>r. (price r, series_label r)) (rows df))
     (generate_mock_stock_data now1 randn symbols days) =
   map_sum id (\<lambda>df. map (\<lambda>r. (price r, series_label r)) (rows df))
     (generate_mock_stock_data now2 randn symbols days)"
    by (simp add: generate_eq comp_def map_concat)
  have b: "generate_mock_stock_data now1 randn symbols days =
      generate_mock_stock_data now2 randn symbols days"
    if "\<forall>k < length symbols. now1 k = now2 k"
  proof -
    have "map (\<lambda>k. symbol_frame (now1 k) (map randn [k * days..<k * days + days])
                    (symbols ! k) days) [0..<length symbols] =
          map (\<lambda>k. symbol_frame (now2 k) (map randn [k * days..<k * days + days])
                    (symbols ! k) days) [0..<length symbols]"
      using that by (intro map_cong) simp_all
    then show ?thesis
      by (simp only: generate_mock_stock_data_def stock_loop_eq)
  qed
  show ?thesis using a b by blast
qed

theorem generate_mock_stock_data_prices_deterministic_witness:
  "clock_from 5 0 = clock_from (2 + 3) 0 \<and>
   generate_mock_stock_data (clock_from 5) unit_steps [''AAPL''] 2 =
   generate_mock_stock_data (clock_from (2 + 3)) unit_steps [''AAPL''] 2 \<and>
   map_sum id (\<lambda>df. map (\<lambda>r. (price r, series_label r)) (rows df))
     (generate_mock_stock_data (clock_from 0) unit_steps [''AAPL''] 2) =
   map_sum id (\<lambda>df. map (\<lambda>r. (price r, series_label r)) (rows df))
     (generate_mock_stock_data (clock_from 86400000000000) unit_steps [''AAPL''] 2)"
  using generate_mock_stock_data_prices_deterministic
      [of "clock_from 5" unit_steps "[''AAPL'']" 2 "clock_from (2 + 3)"]
    generate_mock_stock_data_prices_deterministic
      [of "clock_from 0" unit_steps "[''AAPL'']" 2 "clock_from 86400000000000"]
  by (simp add: clock_from_def)

text \<open>
  C9 as the specification words it fails: with the same random state, symbols and
  day-count, a run one microsecond later gives another table.
\<close>

theorem generate_mock_stock_data_clock_dependent:
  "generate_mock_stock_data (clock_from 0) unit_steps [''AAPL''] 1 \<noteq>
   generate_mock_stock_data (clock_from 1000) unit_steps [''AAPL''] 1"
  by (simp add: generate_eq clock_from_def)

section \<open>Properties of the statistics\<close>

lemma pct_change_length: "length (pct_change xs) = length xs"
  by (cases xs) simp_all

lemma pct_change_last:
  assumes "2 \<le> length xs"
  shows "last (pct_change xs) =
         map_option (\<lambda>q. q - 1) (fdiv (value_of (last xs)) (value_of (xs ! (length xs - 2))))"
proof -
  from assms obtain x y ys where xs: "xs = x # y # ys"
    by (cases xs; cases "tl xs") auto
  let ?zs = "zip (x # y # ys) (y # ys)"
  have len: "length ?zs = Suc (length ys)" by simp
  have ne: "?zs \<noteq> []" by simp
  have "last ?zs = ?zs ! length ys"
    using last_conv_nth [OF ne] len by simp
  also have "\<dots> = ((x # y # ys) ! length ys, (y # ys) ! length ys)"
    by (rule nth_zip) simp_all
  finally have lz: "last ?zs = ((x # y # ys) ! length ys, (y # ys) ! length ys)" .
  have ly: "last (y # ys) = (y # ys) ! length ys"
    using last_conv_nth [of "y # ys"] by simp
  show ?thesis
    unfolding xs using lz ly ne
    by (simp add: last_map del: zip_Cons_Cons)
qed

lemma price_change_eq:
  assumes "xs \<noteq> []"
  shows "price_change xs = Inr (last_step_change xs)"
proof (cases "2 \<le> length xs")
  case True
  have ne: "pct_change xs \<noteq> []"
    using True pct_change_length [of xs] by auto
  show ?thesis
    using True ne pct_change_last [OF True]
    by (simp add: price_change_def iloc_last_def fdiv_def last_step_change_def
        second_to_last_def field_simps)
next
  case False
  with assms have "length xs = 1"
    by (cases xs) (auto simp: Suc_le_eq)
  then obtain x where "xs = [x]"
    by (cases xs) auto
  then show ?thesis
    by (simp add: price_change_def iloc_last_def last_step_change_def second_to_last_def)
qed

lemma value_of_np_subtract: "value_of (np_subtract a b) = difference a b"
  by (cases a; cases b) (simp_all add: np_subtract_def difference_def value_of_def)

lemma total_change_eq:
  assumes "xs \<noteq> []"
  shows "total_change xs = Inr (whole_range_change xs)"
  using assms
  by (cases xs)
    (simp_all add: total_change_def iloc_last_def iloc_first_def fdiv_def whole_range_change_def
      value_of_np_subtract)

lemma set_unique: "set (unique xs) = set xs"
  by (simp add: unique_def)

lemma set_groupby_keys: "set (groupby_keys df) = series_label ` set (rows df)"
  by (simp add: groupby_keys_def labels_def set_unique)

lemma prices_of_series: "prices_of df l = map price (series_of df l)"
  by (simp add: prices_of_def series_of_def)

lemma prices_of_nonempty: "l \<in> set (groupby_keys df) \<Longrightarrow> prices_of df l \<noteq> []"
  by (auto simp: set_groupby_keys prices_of_def filter_empty_conv)

lemma price_card_eq:
  "l \<in> set (groupby_keys df) \<Longrightarrow>
   price_card df l =
     Inr (PriceCard l (value_of (last (prices_of df l))) (last_step_change (prices_of df l)))"
  using price_change_eq [OF prices_of_nonempty, of l df]
  by (simp add: price_card_def Let_def prices_of_series)

lemma change_bar_eq:
  "l \<in> set (groupby_keys df) \<Longrightarrow>
   change_bar df l = Inr (l, whole_range_change (prices_of df l))"
  using total_change_eq [OF prices_of_nonempty, of l df]
  by (simp add: change_bar_def prices_of_series)

lemma price_dashboard_eq:
  "price_dashboard df stamp =
     Inr \<lparr>cards = map (\<lambda>l. PriceCard l (value_of (last (prices_of df l)))
                              (last_step_change (prices_of df l))) (groupby_keys df),
          main_chart = Chart Line (traces df),
          secondary_chart_1 = Chart Area (traces df),
          secondary_chart_2 =
            Bars (map (\<lambda>l. (l, whole_range_change (prices_of df l))) (groupby_keys df)),
          last_update = stamp\<rparr>"
proof -
  have cs: "mapE (price_card df) (groupby_keys df) =
      Inr (map (\<lambda>l. PriceCard l (value_of (last (prices_of df l)))
                              (last_step_change (prices_of df l))) (groupby_keys df))"
    by (intro mapE_map) (simp add: price_card_eq)
  have bs: "mapE (change_bar df) (groupby_keys df) =
      Inr (map (\<lambda>l. (l, whole_range_change (prices_of df l))) (groupby_keys df))"
    by (intro mapE_map) (simp add: change_bar_eq)
  show ?thesis by (simp add: price_dashboard_def cs bs)
qed

lemma price_dashboard_Inr: "\<exists>d. price_dashboard df stamp = Inr d"
  by (simp add: price_dashboard_eq)

subsection \<open>The crypto dashboard\<close>

lemma update_crypto_dashboard_Inr: "\<exists>d. update_crypto_dashboard w days = Inr d"
proof -
  obtain df where "fetch_crypto_data (market_chart_api w) default_coins days = Inr df"
    using fetch_crypto_data_Inr by blast
  then show ?thesis
    using price_dashboard_Inr [of df "clock w 0"] by (auto simp: update_crypto_dashboard_def)
qed

text \<open>
  C4. When the request of every default coin fails, \<open>fetch_crypto_data\<close> returns the
  empty table, not an exception, and \<open>update_crypto_dashboard\<close> returns the
  placeholder dashboard with the message ``No crypto data available'': its result
  is the value of \<open>create_empty_dashboard\<close>, which holds no card and no statistic.
  Whatever the services answer, in world \<open>w'\<close> say, no indexing error of the
  statistics reaches the caller.
\<close>

theorem update_crypto_dashboard_all_failed:
  assumes "\<forall>coin \<in> set default_coins. failed (market_chart_api w coin days)"
  shows "fetch_crypto_data (market_chart_api w) default_coins days = Inr DataFrame \<and>
         rows (DataFrame :: series_row frame) = [] \<and>
         update_crypto_dashboard w days =
           Inr (create_empty_dashboard ''No crypto data available'' (clock w 0)) \<and>
         cards (create_empty_dashboard ''No crypto data available'' (clock w 0)) = [] \<and>
         (\<exists>d. update_crypto_dashboard w' days' = Inr d)"
  using fetch_all_failed [of default_coins "market_chart_api w" days] assms
    update_crypto_dashboard_Inr [of w' days']
  by (simp add: update_crypto_dashboard_def DataFrame_def df_empty_def
      create_empty_dashboard_def)

theorem update_crypto_dashboard_all_failed_witness:
  "failed (market_chart_api offline_world ''bitcoin'' 7) \<and>
   failed (market_chart_api offline_world ''ethereum'' 7) \<and>
   failed (market_chart_api offline_world ''cardano'' 7) \<and>
   update_crypto_dashboard offline_world 7 =
     Inr \<lparr>cards = [], main_chart = Annotation ''No crypto data available'',
          secondary_chart_1 = Annotation ''No crypto data available'',
          secondary_chart_2 = Annotation ''No crypto data available'',
          last_update = 1704067200000000000\<rparr>"
proof -
  have f: "failed (market_chart_api offline_world ''bitcoin'' 7)"
    "failed (market_chart_api offline_world ''ethereum'' 7)"
    "failed (market_chart_api offline_world ''cardano'' 7)"
    by (simp_all add: offline_world_def market_down_def failed_def)
  then have all: "\<forall>coin \<in> set default_coins. failed (market_chart_api offline_world coin 7)"
    by (simp add: default_coins_def)
  have "clock offline_world 0 = 1704067200000000000"
    by (simp add: offline_world_def sample_world_def clock_from_def)
  then show ?thesis
    using f update_crypto_dashboard_all_failed [OF all, of offline_world 7]
    by (simp add: create_empty_dashboard_def)
qed


subsection \<open>Percent changes\<close>

lemma generate_Inr:
  "symbols \<noteq> [] \<Longrightarrow> \<exists>df. generate_mock_stock_data now randn symbols days = Inr df"
  by (simp add: generate_eq)

lemma sint_difference:
  fixes a b :: "64 word"
  assumes "- (2 ^ 63) \<le> sint a - sint b" and "sint a - sint b < 2 ^ 63"
  shows "sint (a - b) = sint a - sint b"
  using assms by (simp add: sint_word_ariths signed_take_bit_int_eq_self)

text \<open>
  C7, as the code has it. Both dashboards of prices show, for every label of the
  table, in the sorted order of the labels, a card with the last price of the
  label's series and its last-step change, and a bar with its whole-range change;
  the series of a label is never empty. The last-step change is
  \<open>(last - prev) / prev * 100\<close> for the value \<open>prev\<close> before the last one, and NaN on
  a series of a single value. The whole-range change is
  \<open>(last - first) / first * 100\<close>; on a column of integers the difference is taken
  in 64 bits and wraps, and it is the difference of the values when that fits 64
  bits. The whole-range change of \<open>[100, 110]\<close> is \<open>10\<close>, and the last-step change
  of \<open>[100, 95, 110]\<close> is \<open>(110 - 95) / 95 * 100\<close>, which rounds to \<open>15.79\<close>.
\<close>

theorem percent_changes:
  "(\<exists>df d. generate_mock_stock_data (clock w) (generator w) default_symbols days = Inr df \<and>
      update_stocks_dashboard w days = Inr d \<and>
      cards d = map (\<lambda>l. PriceCard l (value_of (last (prices_of df l)))
                            (last_step_change (prices_of df l))) (groupby_keys df) \<and>
      secondary_chart_2 d =
        Bars (map (\<lambda>l. (l, whole_range_change (prices_of df l))) (groupby_keys df)) \<and>
      (\<forall>l \<in> set (groupby_keys df). prices_of df l \<noteq> [])) \<and>
   (\<exists>df. fetch_crypto_data (market_chart_api w) default_coins days = Inr df \<and>
      (\<not> df_empty df \<longrightarrow>
         (\<exists>d. update_crypto_dashboard w days = Inr d \<and>
            cards d = map (\<lambda>l. PriceCard l (value_of (last (prices_of df l)))
                                  (last_step_change (prices_of df l))) (groupby_keys df) \<and>
            secondary_chart_2 d =
              Bars (map (\<lambda>l. (l, whole_range_change (prices_of df l))) (groupby_keys df)) \<and>
            (\<forall>l \<in> set (groupby_keys df). prices_of df l \<noteq> [])))) \<and>
   (second_to_last xs = Some prev \<and> value_of prev \<noteq> 0 \<longrightarrow>
      last_step_change xs = Some ((value_of (last xs) - value_of prev) / value_of prev * 100)) \<and>
   (second_to_last xs = None \<longrightarrow> last_step_change xs = None) \<and>
   (value_of (hd xs) \<noteq> 0 \<longrightarrow>
      whole_range_change xs = Some (difference (last xs) (hd xs) / value_of (hd xs) * 100)) \<and>
   difference (PyFloat x) (PyFloat y) = x - y \<and>
   difference (PyInt a) (PyInt b) = real_of_int (sint (a - b)) \<and>
   (- (2 ^ 63) \<le> sint a - sint b \<and> sint a - sint b < 2 ^ 63 \<longrightarrow>
      difference (PyInt a) (PyInt b) = value_of (PyInt a) - value_of (PyInt b)) \<and>
   whole_range_change [PyFloat 100, PyFloat 110] = Some 10 \<and>
   whole_range_change [PyInt 100, PyInt 110] = Some 10 \<and>
   last_step_change [PyFloat 100, PyFloat 95, PyFloat 110] = Some ((110 - 95) / 95 * 100) \<and>
   \<bar>(110 - 95) / 95 * 100 - 15.79\<bar> < (0.005 :: real)"
proof -
  have "default_symbols \<noteq> []" by (simp add: default_symbols_def)
  then obtain sdf where
    sdf: "generate_mock_stock_data (clock w) (generator w) default_symbols days = Inr sdf"
    using generate_Inr by blast
  let ?sd = "\<lparr>cards = map (\<lambda>l. PriceCard l (value_of (last (prices_of sdf l)))
                              (last_step_change (prices_of sdf l))) (groupby_keys sdf),
          main_chart = Chart Line (traces sdf),
          secondary_chart_1 = Chart Area (traces sdf),
          secondary_chart_2 =
            Bars (map (\<lambda>l. (l, whole_range_change (prices_of sdf l))) (groupby_keys sdf)),
          last_update = clock w (length default_symbols)\<rparr>"
  have "update_stocks_dashboard w days = Inr ?sd"
    by (simp add: update_stocks_dashboard_def sdf price_dashboard_eq)
  then have stocks: "\<exists>df d.
      generate_mock_stock_data (clock w) (generator w) default_symbols days = Inr df \<and>
      update_stocks_dashboard w days = Inr d \<and>
      cards d = map (\<lambda>l. PriceCard l (value_of (last (prices_of df l)))
                            (last_step_change (prices_of df l))) (groupby_keys df) \<and>
      secondary_chart_2 d =
        Bars (map (\<lambda>l. (l, whole_range_change (prices_of df l))) (groupby_keys df)) \<and>
      (\<forall>l \<in> set (groupby_keys df). prices_of df l \<noteq> [])"
    using sdf prices_of_nonempty [of _ sdf]
    by (intro exI [of _ sdf] exI [of _ ?sd]) simp
  obtain cdf where
    cdf: "fetch_crypto_data (market_chart_api w) default_coins days = Inr cdf"
    using fetch_crypto_data_Inr by blast
  let ?cd = "\<lparr>cards = map (\<lambda>l. PriceCard l (value_of (last (prices_of cdf l)))
                              (last_step_change (prices_of cdf l))) (groupby_keys cdf),
          main_chart = Chart Line (traces cdf),
          secondary_chart_1 = Chart Area (traces cdf),
          secondary_chart_2 =
            Bars (map (\<lambda>l. (l, whole_range_change (prices_of cdf l))) (groupby_keys cdf)),
          last_update = clock w 0\<rparr>"
  have "update_crypto_dashboard w days = Inr ?cd" if "\<not> df_empty cdf"
    using that by (simp add: update_crypto_dashboard_def cdf price_dashboard_eq)
  then have crypto: "\<exists>df. fetch_crypto_data (market_chart_api w) default_coins days = Inr df \<and>
      (\<not> df_empty df \<longrightarrow>
         (\<exists>d. update_crypto_dashboard w days = Inr d \<and>
            cards d = map (\<lambda>l. PriceCard l (value_of (last (prices_of df l)))
                                  (last_step_change (prices_of df l))) (groupby_keys df) \<and>
            secondary_chart_2 d =
              Bars (map (\<lambda>l. (l, whole_range_change (prices_of df l))) (groupby_keys df)) \<and>
            (\<forall>l \<in> set (groupby_keys df). prices_of df l \<noteq> [])))"
    using cdf prices_of_nonempty [of _ cdf]
    by (intro exI [of _ cdf] conjI impI exI [of _ ?cd]) simp_all
  have f1: "second_to_last xs = Some prev \<and> value_of prev \<noteq> 0 \<longrightarrow>
      last_step_change xs = Some ((value_of (last xs) - value_of prev) / value_of prev * 100)"
    and f2: "second_to_last xs = None \<longrightarrow> last_step_change xs = None"
    and f3: "value_of (hd xs) \<noteq> 0 \<longrightarrow>
      whole_range_change xs = Some (difference (last xs) (hd xs) / value_of (hd xs) * 100)"
    by (simp_all add: last_step_change_def whole_range_change_def)
  have g1: "difference (PyFloat x) (PyFloat y) = x - y"
    and g2: "difference (PyInt a) (PyInt b) = real_of_int (sint (a - b))"
    by (simp_all add: difference_def value_of_def)
  have g3: "- (2 ^ 63) \<le> sint a - sint b \<and> sint a - sint b < 2 ^ 63 \<longrightarrow>
      difference (PyInt a) (PyInt b) = value_of (PyInt a) - value_of (PyInt b)"
    using sint_difference [of a b] by (simp add: difference_def value_of_def)
  have e1: "whole_range_change [PyFloat 100, PyFloat 110] = Some 10"
    and e2: "whole_range_change [PyInt 100, PyInt 110] = Some 10"
    and e3: "last_step_change [PyFloat 100, PyFloat 95, PyFloat 110] =
      Some ((110 - 95) / 95 * 100)"
    by (simp_all add: whole_range_change_def last_step_change_def second_to_last_def
        difference_def value_of_def)
  have e4: "\<bar>(110 - 95) / 95 * 100 - 15.79\<bar> < (0.005 :: real)"
    by simp
  show ?thesis
    using stocks crypto f1 f2 f3 g1 g2 g3 e1 e2 e3 e4 by (intro conjI)
qed

theorem percent_changes_witness:
  "map_sum id cards (update_stocks_dashboard sample_world 2) =
     Inr [PriceCard ''AAPL'' 190 (Some ((190 - 185) / 185 * 100)),
          PriceCard ''GOOGL'' 150 (Some ((150 - 145) / 145 * 100)),
          PriceCard ''MSFT'' 390 (Some ((390 - 385) / 385 * 100))] \<and>
   map_sum id secondary_chart_2 (update_stocks_dashboard sample_world 2) =
     Inr (Bars [(''AAPL'', Some ((190 - 185) / 185 * 100)),
                (''GOOGL'', Some ((150 - 145) / 145 * 100)),
                (''MSFT'', Some ((390 - 385) / 385 * 100))]) \<and>
   map_sum id cards (update_crypto_dashboard sample_world 7) =
     Inr [PriceCard ''Bitcoin'' 35350 (Some ((35350 - 35000) / 35000 * 100))] \<and>
   map_sum id secondary_chart_2 (update_crypto_dashboard sample_world 7) =
     Inr (Bars [(''Bitcoin'', Some 1)]) \<and>
   map_sum id cards (update_crypto_dashboard busy_world 7) =
     Inr [PriceCard ''Bitcoin'' 35350 (Some ((35350 - 35000) / 35000 * 100)),
          PriceCard ''Cardano'' 1 None,
          PriceCard ''Ethereum'' 2090 (Some ((2090 - 1900) / 1900 * 100))] \<and>
   map_sum id secondary_chart_2 (update_crypto_dashboard busy_world 7) =
     Inr (Bars [(''Bitcoin'', Some ((35350 - 35000) / 35000 * 100)),
                (''Cardano'', Some 0),
                (''Ethereum'', Some ((2090 - 2000) / 2000 * 100))])"
proof -
  let ?sdf = "\<lparr>columns = [''date'', ''price'', ''symbol''],
      rows = [\<lparr>timestamp = 1703980800000000000, price = PyFloat 185, series_label = ''AAPL''\<rparr>,
              \<lparr>timestamp = 1704067200000000000, price = PyFloat 190, series_label = ''AAPL''\<rparr>,
              \<lparr>timestamp = 1703980800000001000, price = PyFloat 145, series_label = ''GOOGL''\<rparr>,
              \<lparr>timestamp = 1704067200000001000, price = PyFloat 150, series_label = ''GOOGL''\<rparr>,
              \<lparr>timestamp = 1703980800000002000, price = PyFloat 385, series_label = ''MSFT''\<rparr>,
              \<lparr>timestamp = 1704067200000002000, price = PyFloat 390, series_label = ''MSFT''\<rparr>]\<rparr>"
  let ?cdf = "\<lparr>columns = [''timestamp'', ''price'', ''coin''],
      rows = [\<lparr>timestamp = 1700000000000000000, price = PyFloat 35000,
                series_label = ''Bitcoin''\<rparr>,
              \<lparr>timestamp = 1700000060000000000, price = PyFloat 35350,
                series_label = ''Bitcoin''\<rparr>]\<rparr>"
  have gen: "generate_mock_stock_data (clock sample_world) (generator sample_world)
      default_symbols 2 = Inr ?sdf"
    by code_simp
  have fetch: "fetch_crypto_data (market_chart_api sample_world) default_coins 7 = Inr ?cdf"
    by code_simp
  have ne: "\<not> df_empty ?cdf"
    by (simp add: df_empty_def)
  have sc: "map (\<lambda>l. PriceCard l (value_of (last (prices_of ?sdf l)))
                            (last_step_change (prices_of ?sdf l))) (groupby_keys ?sdf) =
      [PriceCard ''AAPL'' 190 (Some ((190 - 185) / 185 * 100)),
       PriceCard ''GOOGL'' 150 (Some ((150 - 145) / 145 * 100)),
       PriceCard ''MSFT'' 390 (Some ((390 - 385) / 385 * 100))]"
    by code_simp
  have sb: "map (\<lambda>l. (l, whole_range_change (prices_of ?sdf l))) (groupby_keys ?sdf) =
      [(''AAPL'', Some ((190 - 185) / 185 * 100)),
       (''GOOGL'', Some ((150 - 145) / 145 * 100)),
       (''MSFT'', Some ((390 - 385) / 385 * 100))]"
    by code_simp
  have cc: "map (\<lambda>l. PriceCard l (value_of (last (prices_of ?cdf l)))
                            (last_step_change (prices_of ?cdf l))) (groupby_keys ?cdf) =
      [PriceCard ''Bitcoin'' 35350 (Some ((35350 - 35000) / 35000 * 100))]"
    by code_simp
  have cb: "map (\<lambda>l. (l, whole_range_change (prices_of ?cdf l))) (groupby_keys ?cdf) =
      [(''Bitcoin'', Some 1)]"
    by code_simp
  note T = percent_changes [of sample_world 2 "[]" "PyFloat 0" 0 0 0 0]
  note U = percent_changes [of sample_world 7 "[]" "PyFloat 0" 0 0 0 0]
  from T obtain df d where
    "generate_mock_stock_data (clock sample_world) (generator sample_world) default_symbols 2 =
       Inr df"
    and d: "update_stocks_dashboard sample_world 2 = Inr d"
    and "cards d = map (\<lambda>l. PriceCard l (value_of (last (prices_of df l)))
                            (last_step_change (prices_of df l))) (groupby_keys df)"
    and "secondary_chart_2 d =
        Bars (map (\<lambda>l. (l, whole_range_change (prices_of df l))) (groupby_keys df))"
    by blast
  then have s: "map_sum id cards (update_stocks_dashboard sample_world 2) =
     Inr [PriceCard ''AAPL'' 190 (Some ((190 - 185) / 185 * 100)),
          PriceCard ''GOOGL'' 150 (Some ((150 - 145) / 145 * 100)),
          PriceCard ''MSFT'' 390 (Some ((390 - 385) / 385 * 100))] \<and>
   map_sum id secondary_chart_2 (update_stocks_dashboard sample_world 2) =
     Inr (Bars [(''AAPL'', Some ((190 - 185) / 185 * 100)),
                (''GOOGL'', Some ((150 - 145) / 145 * 100)),
                (''MSFT'', Some ((390 - 385) / 385 * 100))])"
    using gen sc sb by simp
  from U obtain df' where
    f: "fetch_crypto_data (market_chart_api sample_world) default_coins 7 = Inr df'"
    and imp: "\<not> df_empty df' \<longrightarrow>
         (\<exists>d. update_crypto_dashboard sample_world 7 = Inr d \<and>
            cards d = map (\<lambda>l. PriceCard l (value_of (last (prices_of df' l)))
                                  (last_step_change (prices_of df' l))) (groupby_keys df') \<and>
            secondary_chart_2 d =
              Bars (map (\<lambda>l. (l, whole_range_change (prices_of df' l))) (groupby_keys df')) \<and>
            (\<forall>l \<in> set (groupby_keys df'). prices_of df' l \<noteq> []))"
    by blast
  from f fetch have eq: "df' = ?cdf" by simp
  from imp ne obtain d' where
    "update_crypto_dashboard sample_world 7 = Inr d'"
    and "cards d' = map (\<lambda>l. PriceCard l (value_of (last (prices_of ?cdf l)))
                                  (last_step_change (prices_of ?cdf l))) (groupby_keys ?cdf)"
    and "secondary_chart_2 d' =
              Bars (map (\<lambda>l. (l, whole_range_change (prices_of ?cdf l))) (groupby_keys ?cdf))"
    unfolding eq by blast
  then have c: "map_sum id cards (update_crypto_dashboard sample_world 7) =
     Inr [PriceCard ''Bitcoin'' 35350 (Some ((35350 - 35000) / 35000 * 100))] \<and>
   map_sum id secondary_chart_2 (update_crypto_dashboard sample_world 7) =
     Inr (Bars [(''Bitcoin'', Some 1)])"
    using cc cb by simp
  let ?bdf = "\<lparr>columns = [''timestamp'', ''price'', ''coin''],
      rows = [\<lparr>timestamp = 1700000000000000000, price = PyInt 35000, series_label = ''Bitcoin''\<rparr>,
              \<lparr>timestamp = 1700000060000000000, price = PyInt 35350, series_label = ''Bitcoin''\<rparr>,
              \<lparr>timestamp = 1700000000000000000, price = PyInt 2000, series_label = ''Ethereum''\<rparr>,
              \<lparr>timestamp = 1700000060000000000, price = PyInt 1900, series_label = ''Ethereum''\<rparr>,
              \<lparr>timestamp = 1700000120000000000, price = PyInt 2090, series_label = ''Ethereum''\<rparr>,
              \<lparr>timestamp = 1700000000000000000, price = PyInt 1, series_label = ''Cardano''\<rparr>]\<rparr>"
  have bfetch: "fetch_crypto_data (market_chart_api busy_world) default_coins 7 = Inr ?bdf"
    by code_simp
  have bne: "\<not> df_empty ?bdf"
    by (simp add: df_empty_def)
  have bc: "map (\<lambda>l. PriceCard l (value_of (last (prices_of ?bdf l)))
                            (last_step_change (prices_of ?bdf l))) (groupby_keys ?bdf) =
      [PriceCard ''Bitcoin'' 35350 (Some ((35350 - 35000) / 35000 * 100)),
       PriceCard ''Cardano'' 1 None,
       PriceCard ''Ethereum'' 2090 (Some ((2090 - 1900) / 1900 * 100))]"
    by code_simp
  have bb: "map (\<lambda>l. (l, whole_range_change (prices_of ?bdf l))) (groupby_keys ?bdf) =
      [(''Bitcoin'', Some ((35350 - 35000) / 35000 * 100)),
       (''Cardano'', Some 0),
       (''Ethereum'', Some ((2090 - 2000) / 2000 * 100))]"
    by code_simp
  note V = percent_changes [of busy_world 7 "[]" "PyFloat 0" 0 0 0 0]
  from V obtain bdf' where
    bf: "fetch_crypto_data (market_chart_api busy_world) default_coins 7 = Inr bdf'"
    and bimp: "\<not> df_empty bdf' \<longrightarrow>
         (\<exists>d. update_crypto_dashboard busy_world 7 = Inr d \<and>
            cards d = map (\<lambda>l. PriceCard l (value_of (last (prices_of bdf' l)))
                                  (last_step_change (prices_of bdf' l))) (groupby_keys bdf') \<and>
            secondary_chart_2 d =
              Bars (map (\<lambda>l. (l, whole_range_change (prices_of bdf' l))) (groupby_keys bdf')) \<and>
            (\<forall>l \<in> set (groupby_keys bdf'). prices_of bdf' l \<noteq> []))"
    by blast
  from bf bfetch have beq: "bdf' = ?bdf" by simp
  from bimp bne obtain bd where
    "update_crypto_dashboard busy_world 7 = Inr bd"
    and "cards bd = map (\<lambda>l. PriceCard l (value_of (last (prices_of ?bdf l)))
                                  (last_step_change (prices_of ?bdf l))) (groupby_keys ?bdf)"
    and "secondary_chart_2 bd =
              Bars (map (\<lambda>l. (l, whole_range_change (prices_of ?bdf l))) (groupby_keys ?bdf))"
    unfolding beq by blast
  then have b: "map_sum id cards (update_crypto_dashboard busy_world 7) =
     Inr [PriceCard ''Bitcoin'' 35350 (Some ((35350 - 35000) / 35000 * 100)),
          PriceCard ''Cardano'' 1 None,
          PriceCard ''Ethereum'' 2090 (Some ((2090 - 1900) / 1900 * 100))] \<and>
   map_sum id secondary_chart_2 (update_crypto_dashboard busy_world 7) =
     Inr (Bars [(''Bitcoin'', Some ((35350 - 35000) / 35000 * 100)),
                (''Cardano'', Some 0),
                (''Ethereum'', Some ((2090 - 2000) / 2000 * 100))])"
    using bc bb by simp
  show ?thesis using s c b by (simp only: simp_thms)
qed

text \<open>
  C7 as the specification words it fails twice. On a series of one value, which
  the stock pipeline produces for a range of one day, there is no value before the
  last one and the change on the card is NaN. On a column of integers the
  difference of the last and the first price is taken in 64 bits: for the prices
  \<open>-4611686018427387904\<close> and \<open>4611686018427387909\<close> it wraps, and the bar shows a
  positive change where the formula gives a negative one.
\<close>

theorem price_change_single_point:
  "map_sum id cards (update_stocks_dashboard sample_world 1) =
     Inr [PriceCard ''AAPL'' 185 None, PriceCard ''GOOGL'' 145 None,
          PriceCard ''MSFT'' 385 None] \<and>
   integer_market ''bitcoin'' 7 =
     Response 200 (Inr [(1700000000000, PyInt (- 4611686018427387904)),
                        (1700000060000, PyInt 4611686018427387909)]) \<and>
   map_sum id secondary_chart_2 (update_crypto_dashboard integer_world 7) =
     Inr (Bars [(''Bitcoin'', Some (- 9223372036854775803 / - 4611686018427387904 * 100))]) \<and>
   (0 :: real) < - 9223372036854775803 / - 4611686018427387904 * 100 \<and>
   (4611686018427387909 - (- 4611686018427387904)) / (- 4611686018427387904) * 100 < (0 :: real)"
proof -
  have a: "map_sum id cards (update_stocks_dashboard sample_world 1) =
     Inr [PriceCard ''AAPL'' 185 None, PriceCard ''GOOGL'' 145 None,
          PriceCard ''MSFT'' 385 None]"
    by code_simp
  have b: "integer_market ''bitcoin'' 7 =
     Response 200 (Inr [(1700000000000, PyInt (- 4611686018427387904)),
                        (1700000060000, PyInt 4611686018427387909)])"
    by (simp add: integer_market_def)
  have c: "map_sum id secondary_chart_2 (update_crypto_dashboard integer_world 7) =
     Inr (Bars [(''Bitcoin'', Some (- 9223372036854775803 / - 4611686018427387904 * 100))])"
    by code_simp
  have d: "(0 :: real) < - 9223372036854775803 / - 4611686018427387904 * 100"
    and e: "(4611686018427387909 - (- 4611686018427387904)) / (- 4611686018427387904) * 100
      < (0 :: real)"
    by simp_all
  show ?thesis using a b c d e by (intro conjI)
qed

section \<open>Properties of the dispatcher\<close>

lemma update_stocks_dashboard_Inr: "\<exists>d. update_stocks_dashboard w days = Inr d"
proof -
  have "default_symbols \<noteq> []" by (simp add: default_symbols_def)
  then obtain df where
    "generate_mock_stock_data (clock w) (generator w) default_symbols days = Inr df"
    using generate_rows by blast
  then show ?thesis
    using price_dashboard_Inr [of df "clock w (length default_symbols)"]
    by (auto simp: update_stocks_dashboard_def)
qed

text \<open>
  C10. For every selector other than the strings \<open>crypto\<close> and \<open>weather\<close>,
  \<open>update_dashboard\<close> returns what \<open>update_stocks_dashboard\<close> returns for the
  day-count, which for a day-count of at least one is a dashboard and not an
  exception; the string \<open>crypto\<close>
  selects \<open>update_crypto_dashboard\<close> and the string \<open>weather\<close> selects
  \<open>update_weather_dashboard\<close>, with the location or its default.
\<close>

theorem update_dashboard_dispatch:
  "(data_type \<noteq> ''crypto'' \<and> data_type \<noteq> ''weather'' \<longrightarrow>
      update_dashboard w n_clicks n_intervals data_type time_range loc =
        update_stocks_dashboard w time_range \<and>
      (1 \<le> time_range \<longrightarrow>
         (\<exists>d. update_dashboard w n_clicks n_intervals data_type time_range loc = Inr d))) \<and>
   update_dashboard w n_clicks n_intervals ''crypto'' time_range loc =
     update_crypto_dashboard w time_range \<and>
   update_dashboard w n_clicks n_intervals ''weather'' time_range loc =
     update_weather_dashboard w time_range (location_or_default loc)"
  using update_stocks_dashboard_Inr [of w time_range]
  by (simp add: update_dashboard_def)

theorem update_dashboard_dispatch_witness:
  "update_dashboard sample_world 0 0 ''stocks'' 30 None = update_stocks_dashboard sample_world 30 \<and>
   update_dashboard sample_world 3 1 ''bonds'' 30 (Some ''Paris'') =
     update_stocks_dashboard sample_world 30 \<and>
   update_dashboard sample_world 3 1 [] 30 (Some ''Paris'') =
     update_stocks_dashboard sample_world 30 \<and>
   update_dashboard sample_world 0 0 ''weather'' 1 (Some []) =
     update_weather_dashboard sample_world 1 ''New York''"
  using update_dashboard_dispatch [of "''stocks''" sample_world 0 0 30 None]
    update_dashboard_dispatch [of "''bonds''" sample_world 3 1 30 "Some ''Paris''"]
    update_dashboard_dispatch [of "[]" sample_world 3 1 30 "Some ''Paris''"]
    update_dashboard_dispatch [of _ sample_world 0 0 1 "Some []"]
  by (simp add: location_or_default_def)
end
